theory Spec2Isabelle
  imports Main
begin

section \<open>The role reconciliation bot of \<^verbatim>\<open>src/bot/bot.py\<close>\<close>

text \<open>
  The bot keeps one Discord role (the allowlist role) in step with the quiz results stored
  in a backend. It has three entry points, which all call \<^verbatim>\<open>assign_role_to_member\<close>:
  the change-feed callback \<^verbatim>\<open>on_handle\<close> with the coroutine \<^verbatim>\<open>auto_assign_role\<close>,
  the command \<^verbatim>\<open>verify\<close> and the command \<^verbatim>\<open>sync\<close>.

  The Discord guild, the backend and the direct-message channel are outside the program.
  The model splits them in two:
  \<^item> a \<^emph>\<open>world\<close>: the role catalog of the guild, the roles each member holds at Discord,
    the member cache of the bot with the roles each cached member shows, the coroutines
    scheduled on the event loop, and the list of requests completed so far;
  \<^item> an \<^emph>\<open>environment\<close>: how each remote call answers. Every answer depends on the number
    of requests completed before it, so that a call may fail at one moment and succeed at a
    later one (a transient failure).
  Every \<^verbatim>\<open>raise\<close> that the source lets escape is a value \<open>Inl e\<close> of the model; every
  \<^verbatim>\<open>try\<close>/\<^verbatim>\<open>except\<close> of the source is a case distinction of the model. The calls to
  \<^verbatim>\<open>print\<close> are left out.
\<close>

subsection \<open>Configuration (lines 11-18)\<close>

text \<open>
  \<^verbatim>\<open>GUILD_ID = int(os.getenv('DISCORD_GUILD_ID', 0))\<close> and
  \<^verbatim>\<open>ALLOWLIST_ROLE_ID = int(os.getenv('ALLOWLIST_ROLE_ID', 0))\<close>: an unset variable gives 0.
\<close>

record config =
  guild_id :: int
  allowlist_role_id :: int

subsection \<open>Python values and exceptions\<close>

datatype py_error =
    ValueError
  | TypeError
  | AttributeError
  | BackendError string
  | HTTPException

text \<open>
  The value of a \<^verbatim>\<open>discord_id\<close> field as it arrives from the backend. The source applies
  two operations to it: the truth test of \<^verbatim>\<open>if is_passed and discord_id\<close> and the
  conversion \<^verbatim>\<open>int(...)\<close>. The constructors are the kinds of value these two operations
  tell apart:
  \<^item> \<open>Id_null\<close>: \<^verbatim>\<open>None\<close>;
  \<^item> \<open>Id_empty\<close>: the empty string;
  \<^item> \<open>Id_digits n\<close>: a non-empty string that \<^verbatim>\<open>int\<close> reads as \<open>n\<close>, such as \<^verbatim>\<open>"42"\<close>;
  \<^item> \<open>Id_malformed\<close>: a non-empty string that \<^verbatim>\<open>int\<close> rejects, such as \<^verbatim>\<open>"abc"\<close>;
  \<^item> \<open>Id_number n\<close>: the number \<open>n\<close>.
\<close>

datatype id_value =
    Id_null
  | Id_empty
  | Id_digits int
  | Id_malformed
  | Id_number int

fun truthy :: "id_value \<Rightarrow> bool" where
  "truthy Id_null = False"
| "truthy Id_empty = False"
| "truthy (Id_digits n) = True"
| "truthy Id_malformed = True"
| "truthy (Id_number n) = (n \<noteq> 0)"

fun py_int :: "id_value \<Rightarrow> py_error + int" where
  "py_int Id_null = Inl TypeError"
| "py_int Id_empty = Inl ValueError"
| "py_int (Id_digits n) = Inr n"
| "py_int Id_malformed = Inl ValueError"
| "py_int (Id_number n) = Inr n"

subsection \<open>The text of a failed Discord request\<close>

text \<open>
  \<^verbatim>\<open>member.add_roles\<close> fails with discord.py's \<^verbatim>\<open>HTTPException\<close> or one of its subclasses
  (\<^verbatim>\<open>Forbidden\<close>, \<^verbatim>\<open>NotFound\<close>, \<^verbatim>\<open>DiscordServerError\<close>). Its \<^verbatim>\<open>str\<close> is the status of the
  response in decimal, the reason, the error code, and the text of the error when there
  is one: \<^verbatim>\<open>403 Forbidden (error code: 50013): Missing Permissions\<close>.
\<close>

function decimal :: "nat \<Rightarrow> string" where
  "decimal n = (if n < 10 then [''0123456789'' ! n] else decimal (n div 10) @ [''0123456789'' ! (n mod 10)])"
  by pat_completeness auto
termination
  by (relation "measure (\<lambda>n. n)") auto

definition http_exception_text :: "nat \<Rightarrow> string \<Rightarrow> nat \<Rightarrow> string \<Rightarrow> string" where
  "http_exception_text status reason code msg =
     decimal status @ '' '' @ reason @ '' (error code: '' @ decimal code @ '')''
       @ (if msg = [] then [] else '': '' @ msg)"

subsection \<open>Replies and requests\<close>

text \<open>
  The three values of \<^verbatim>\<open>role_status\<close> at line 134, and the three embeds \<^verbatim>\<open>verify\<close>
  can reply with (lines 125-138).
\<close>

datatype role_status =
    Assigned
  | Already_assigned
  | Warning string

datatype verify_reply =
    Not_registered
  | Passed role_status
  | Not_passed

text \<open>The four counters of \<^verbatim>\<open>sync\<close> (lines 152-155).\<close>

record sweep_report =
  assigned :: nat
  already_had :: nat
  failed :: nat
  not_in_server :: nat

text \<open>
  The requests of the bot, written to the trace when their answer arrives.
  \<open>Send_dm m ok\<close> is the call \<^verbatim>\<open>member.send\<close> of line 110, with \<open>ok\<close> telling whether it
  returned (\<open>True\<close>) or raised (\<open>False\<close>).
\<close>

datatype event =
    Fetch_member int
  | Add_roles int int
  | Send_dm int bool
  | Query_user int
  | Query_passed
  | Sync_started
  | Sync_report sweep_report
  | Verify_reply verify_reply

subsection \<open>Member handles and coroutines\<close>

text \<open>
  A \<^verbatim>\<open>discord.Member\<close> as the program holds it: the id of the user, and \<^verbatim>\<open>member.roles\<close>
  as this object shows them. A role is identified by its id (discord.py compares roles by
  id).
\<close>

record member =
  member_id :: int
  roles :: "int set"

text \<open>
  \<^verbatim>\<open>auto_assign_role\<close> returns \<^verbatim>\<open>None\<close> on every path. The model keeps which path was
  taken: the two early returns, or the pair obtained at line 98.
\<close>

datatype listener_outcome =
    Guild_not_found
  | User_not_in_server
  | Role_result bool string

text \<open>
  A run of the coroutine \<^verbatim>\<open>auto_assign_role\<close> on the event loop, between two of its
  \<^verbatim>\<open>await\<close>s:
  \<^item> \<open>Scheduled discord_id\<close>: handed to the loop by line 72, not started;
  \<^item> \<open>Await_fetch d\<close>: suspended at \<^verbatim>\<open>await guild.fetch_member\<close> (line 93);
  \<^item> \<open>Await_add_roles member\<close>: suspended at \<^verbatim>\<open>await member.add_roles(role)\<close> (line 42),
    inside the call of line 98;
  \<^item> \<open>Await_send member success reason\<close>: suspended at \<^verbatim>\<open>await member.send\<close> (line 110),
    with the pair of line 98;
  \<^item> \<open>Finished r\<close>: returned, or raised.
\<close>

datatype task =
    Scheduled id_value
  | Await_fetch int
  | Await_add_roles member
  | Await_send member bool string
  | Finished "py_error + listener_outcome"

subsection \<open>The world and the environment\<close>

text \<open>
  The bot serves one guild, whose id is \<open>guild_ident\<close>. \<open>guild_roles\<close> holds the ids that
  \<^verbatim>\<open>guild.get_role\<close> resolves. \<open>server_roles m\<close> are the roles member \<open>m\<close> holds at Discord.
  \<open>member_cache\<close> is the member cache of the bot: \<open>member_cache w d = Some rs\<close> when
  \<^verbatim>\<open>guild.get_member(d)\<close> finds a member, whose \<^verbatim>\<open>roles\<close> are then \<open>rs\<close>. The cache follows
  the server only through the member updates of the gateway (\<open>gateway_member_update\<close> below);
  no request of the bot writes it. \<open>tasks\<close> are the coroutines handed to the event loop by
  \<^verbatim>\<open>on_handle\<close>, in the order of their scheduling.
\<close>

record world =
  guild_ident :: int
  guild_roles :: "int set"
  server_roles :: "int \<Rightarrow> int set"
  member_cache :: "int \<Rightarrow> int set option"
  tasks :: "task list"
  trace :: "event list"

text \<open>A row of the table \<^verbatim>\<open>users\<close>, as \<^verbatim>\<open>verify\<close> reads it: \<^verbatim>\<open>user_data.get('status')\<close>.\<close>

record user_row =
  row_status :: "string option"

text \<open>
  The answers of the outside, each at a moment \<open>t\<close> (the number of requests completed before):
  \<^item> \<open>fetch_member_ok t d\<close>: \<^verbatim>\<open>guild.fetch_member(d)\<close> returns a member (otherwise it raises);
  \<^item> \<open>add_roles_error t m r\<close>: \<open>None\<close> when \<^verbatim>\<open>member.add_roles(role)\<close> returns, \<open>Some s\<close>
    when it raises an exception \<open>e\<close> with \<^verbatim>\<open>str(e)\<close> equal to \<open>s\<close>;
  \<^item> \<open>send_raises t m\<close>: \<^verbatim>\<open>member.send\<close> raises;
  \<^item> \<open>users_query t d\<close>: the rows of the query of line 120 for the author \<open>d\<close>, or the
    exception \<^verbatim>\<open>execute()\<close> raises;
  \<^item> \<open>passed_query t\<close>: the \<^verbatim>\<open>discord_id\<close> values of the query of line 149, or the exception;
  \<^item> \<open>channel_raises t\<close>: a message to the channel of the command (\<^verbatim>\<open>ctx.send\<close>,
    \<^verbatim>\<open>ctx.reply\<close>, \<^verbatim>\<open>status_msg.edit\<close>) raises.
\<close>

record env =
  fetch_member_ok :: "nat \<Rightarrow> int \<Rightarrow> bool"
  add_roles_error :: "nat \<Rightarrow> int \<Rightarrow> int \<Rightarrow> string option"
  send_raises :: "nat \<Rightarrow> int \<Rightarrow> bool"
  users_query :: "nat \<Rightarrow> int \<Rightarrow> py_error + user_row list"
  passed_query :: "nat \<Rightarrow> py_error + id_value list"
  channel_raises :: "nat \<Rightarrow> bool"

definition now :: "world \<Rightarrow> nat" where
  "now w = length (trace w)"

definition emit :: "event \<Rightarrow> world \<Rightarrow> world" where
  "emit e w = w\<lparr>trace := trace w @ [e]\<rparr>"

subsection \<open>The guild's operations\<close>

definition get_guild :: "world \<Rightarrow> int \<Rightarrow> unit option" where
  "get_guild w g = (if g = guild_ident w then Some () else None)"

definition get_role :: "world \<Rightarrow> int \<Rightarrow> int option" where
  "get_role w r = (if r \<in> guild_roles w then Some r else None)"

text \<open>\<^verbatim>\<open>guild.get_member(d)\<close> reads the cache: the member it returns shows the cached roles.\<close>

definition get_member :: "world \<Rightarrow> int \<Rightarrow> member option" where
  "get_member w d =
     (case member_cache w d of
        None \<Rightarrow> None
      | Some rs \<Rightarrow> Some \<lparr>member_id = d, roles = rs\<rparr>)"

text \<open>
  \<^verbatim>\<open>guild.fetch_member(d)\<close> is a request. The member it returns is built from the answer:
  it shows the roles the server holds at that moment. It does not enter the cache.
\<close>

definition fetch_member :: "env \<Rightarrow> world \<Rightarrow> int \<Rightarrow> member option \<times> world" where
  "fetch_member en w d =
     (if fetch_member_ok en (now w) d
      then (Some \<lparr>member_id = d, roles = server_roles w d\<rparr>, emit (Fetch_member d) w)
      else (None, emit (Fetch_member d) w))"

text \<open>
  \<^verbatim>\<open>member.add_roles(role)\<close> is a request. When it returns, the member holds the role at
  Discord; when it raises, the roles at Discord are as before. Neither the member object
  nor the cache is written: \<^verbatim>\<open>member.roles\<close> shows the role only after a member update of
  the gateway, or on a member fetched later.
\<close>

definition add_roles :: "env \<Rightarrow> world \<Rightarrow> member \<Rightarrow> int \<Rightarrow> (string + unit) \<times> world" where
  "add_roles en w member r =
     (case add_roles_error en (now w) (member_id member) r of
        None \<Rightarrow>
          (Inr (), emit (Add_roles (member_id member) r)
             (w\<lparr>server_roles := (server_roles w)
                   (member_id member := insert r (server_roles w (member_id member)))\<rparr>))
      | Some s \<Rightarrow> (Inl s, emit (Add_roles (member_id member) r) w))"

definition send_dm :: "env \<Rightarrow> world \<Rightarrow> member \<Rightarrow> (unit + unit) \<times> world" where
  "send_dm en w member =
     (if send_raises en (now w) (member_id member)
      then (Inl (), emit (Send_dm (member_id member) False) w)
      else (Inr (), emit (Send_dm (member_id member) True) w))"

text \<open>
  A member update of the gateway for \<open>d\<close>, as discord.py applies it: a cached member shows
  the roles the server holds. This is no code of the bot.
\<close>

definition gateway_member_update :: "int \<Rightarrow> world \<Rightarrow> world" where
  "gateway_member_update d w =
     (case member_cache w d of
        None \<Rightarrow> w
      | Some rs \<Rightarrow> w\<lparr>member_cache := (member_cache w)(d \<mapsto> server_roles w d)\<rparr>)"

subsection \<open>\<^verbatim>\<open>assign_role_to_member\<close> (lines 29-46)\<close>

definition assign_role_to_member :: "config \<Rightarrow> env \<Rightarrow> world \<Rightarrow> member \<Rightarrow> (bool \<times> string) \<times> world" where
  "assign_role_to_member cfg en w member =
     (if allowlist_role_id cfg = 0 then ((False, ''Role ID not configured''), w)
      else case get_role w (allowlist_role_id cfg) of
        None \<Rightarrow> ((False, ''Role not found in server''), w)
      | Some role \<Rightarrow>
          if role \<in> roles member then ((True, ''Already has role''), w)
          else (case add_roles en w member role of
                  (Inr u, w') \<Rightarrow> ((True, ''Role assigned''), w')
                | (Inl s, w') \<Rightarrow> ((False, s), w')))"

subsection \<open>Resolving a member (lines 89-96 and 159-165)\<close>

text \<open>
  Both \<^verbatim>\<open>auto_assign_role\<close> and \<^verbatim>\<open>sync\<close> look a member up in the cache and, on a miss,
  fetch it inside \<^verbatim>\<open>try\<close> with a bare \<^verbatim>\<open>except\<close>: any failure of the fetch gives \<open>None\<close>.
\<close>

definition resolve_member :: "env \<Rightarrow> world \<Rightarrow> int \<Rightarrow> member option \<times> world" where
  "resolve_member en w d =
     (case get_member w d of
        Some member \<Rightarrow> (Some member, w)
      | None \<Rightarrow> fetch_member en w d)"

subsection \<open>The coroutine \<^verbatim>\<open>auto_assign_role\<close> (lines 82-112)\<close>

text \<open>The coroutine from its first line to its return, with nothing else run in between.\<close>

definition auto_assign_role ::
  "config \<Rightarrow> env \<Rightarrow> world \<Rightarrow> id_value \<Rightarrow> (py_error + listener_outcome) \<times> world" where
  "auto_assign_role cfg en w discord_id =
     (case get_guild w (guild_id cfg) of
        None \<Rightarrow> (Inr Guild_not_found, w)
      | Some guild \<Rightarrow>
          (case py_int discord_id of
             Inl e \<Rightarrow> (Inl e, w)
           | Inr d \<Rightarrow>
               (case resolve_member en w d of
                  (None, w1) \<Rightarrow> (Inr User_not_in_server, w1)
                | (Some member, w1) \<Rightarrow>
                    (case assign_role_to_member cfg en w1 member of
                       ((success, reason), w2) \<Rightarrow>
                         if success then
                           (case send_dm en w2 member of
                              (Inr u, w3) \<Rightarrow> (Inr (Role_result success reason), w3)
                            | (Inl u, w3) \<Rightarrow> (Inr (Role_result success reason), w3))
                         else (Inr (Role_result success reason), w2)))))"

subsection \<open>The callback \<^verbatim>\<open>on_handle\<close> (lines 60-72) and the event loop\<close>

text \<open>
  The payload of an insert on \<^verbatim>\<open>attempts\<close>: \<^verbatim>\<open>payload.get('record')\<close> is \<open>None\<close> when the
  record is missing or empty; \<open>rec_passed\<close> is the truth value of \<^verbatim>\<open>new_record.get('passed')\<close>.
  Line 72 hands the coroutine to the event loop of the bot and returns: \<^verbatim>\<open>on_handle\<close> runs
  none of it. An event that does not pass the test of line 69 schedules nothing.
\<close>

record change_record =
  rec_passed :: bool
  rec_discord_id :: id_value

definition on_handle :: "world \<Rightarrow> change_record option \<Rightarrow> world" where
  "on_handle w payload =
     (case payload of
        None \<Rightarrow> w
      | Some new_record \<Rightarrow>
          if rec_passed new_record \<and> truthy (rec_discord_id new_record)
          then w\<lparr>tasks := tasks w @ [Scheduled (rec_discord_id new_record)]\<rparr>
          else w)"

text \<open>
  The event loop runs a scheduled coroutine from one \<^verbatim>\<open>await\<close> to the next; in between,
  other coroutines may run and member updates may reach the cache. \<open>start_assign\<close> is the
  part of \<^verbatim>\<open>assign_role_to_member\<close> before its \<^verbatim>\<open>await\<close> (lines 31-41), \<open>after_assign\<close>
  the part of \<^verbatim>\<open>auto_assign_role\<close> after line 98, up to the \<^verbatim>\<open>await\<close> of line 110.
  \<open>resume\<close> takes a suspended coroutine up with the answer to its request and runs it to
  its next \<^verbatim>\<open>await\<close>.
\<close>

definition after_assign :: "member \<Rightarrow> bool \<times> string \<Rightarrow> task" where
  "after_assign member res =
     (case res of
        (success, reason) \<Rightarrow>
          if success then Await_send member success reason
          else Finished (Inr (Role_result success reason)))"

definition start_assign :: "config \<Rightarrow> world \<Rightarrow> member \<Rightarrow> task" where
  "start_assign cfg w member =
     (if allowlist_role_id cfg = 0 then after_assign member (False, ''Role ID not configured'')
      else case get_role w (allowlist_role_id cfg) of
        None \<Rightarrow> after_assign member (False, ''Role not found in server'')
      | Some role \<Rightarrow>
          if role \<in> roles member then after_assign member (True, ''Already has role'')
          else Await_add_roles member)"

definition resume :: "config \<Rightarrow> env \<Rightarrow> world \<Rightarrow> task \<Rightarrow> task \<times> world" where
  "resume cfg en w t =
     (case t of
        Scheduled discord_id \<Rightarrow>
          (case get_guild w (guild_id cfg) of
             None \<Rightarrow> (Finished (Inr Guild_not_found), w)
           | Some guild \<Rightarrow>
               (case py_int discord_id of
                  Inl e \<Rightarrow> (Finished (Inl e), w)
                | Inr d \<Rightarrow>
                    (case get_member w d of
                       Some member \<Rightarrow> (start_assign cfg w member, w)
                     | None \<Rightarrow> (Await_fetch d, w))))
      | Await_fetch d \<Rightarrow>
          (case fetch_member en w d of
             (None, w1) \<Rightarrow> (Finished (Inr User_not_in_server), w1)
           | (Some member, w1) \<Rightarrow> (start_assign cfg w1 member, w1))
      | Await_add_roles member \<Rightarrow>
          (case add_roles en w member (allowlist_role_id cfg) of
             (Inr u, w1) \<Rightarrow> (after_assign member (True, ''Role assigned''), w1)
           | (Inl s, w1) \<Rightarrow> (after_assign member (False, s), w1))
      | Await_send member success reason \<Rightarrow>
          (case send_dm en w member of
             (Inr u, w1) \<Rightarrow> (Finished (Inr (Role_result success reason)), w1)
           | (Inl u, w1) \<Rightarrow> (Finished (Inr (Role_result success reason)), w1))
      | Finished r \<Rightarrow> (Finished r, w))"

text \<open>The loop takes up the coroutine number \<open>i\<close>.\<close>

definition advance :: "config \<Rightarrow> env \<Rightarrow> nat \<Rightarrow> world \<Rightarrow> world" where
  "advance cfg en i w =
     (if i < length (tasks w) then
        (case resume cfg en w (tasks w ! i) of
           (t, w1) \<Rightarrow> w1\<lparr>tasks := (tasks w1)[i := t]\<rparr>)
      else w)"

subsection \<open>The command \<^verbatim>\<open>verify\<close> (lines 114-140)\<close>

text \<open>
  \<open>author\<close> is \<^verbatim>\<open>ctx.author\<close>, with the roles this object shows when the command runs.
  \<open>in_guild\<close> tells whether the command was sent in the guild: in a private channel
  \<^verbatim>\<open>ctx.author\<close> is a user without the attribute \<^verbatim>\<open>guild\<close>, and line 34 raises when it is
  reached.
\<close>

record ctx =
  author :: member
  in_guild :: bool

text \<open>\<^verbatim>\<open>ctx.reply(embed=embed)\<close> of line 140, with the embed the branches have built.\<close>

definition reply :: "env \<Rightarrow> world \<Rightarrow> verify_reply \<Rightarrow> (py_error + verify_reply) \<times> world" where
  "reply en w r =
     (if channel_raises en (now w) then (Inl HTTPException, emit (Verify_reply r) w)
      else (Inr r, emit (Verify_reply r) w))"

definition verify :: "config \<Rightarrow> env \<Rightarrow> world \<Rightarrow> ctx \<Rightarrow> (py_error + verify_reply) \<times> world" where
  "verify cfg en w c =
     (case users_query en (now w) (member_id (author c)) of
        Inl e \<Rightarrow> (Inl e, emit (Query_user (member_id (author c))) w)
      | Inr data \<Rightarrow>
          (let w0 = emit (Query_user (member_id (author c))) w in
           case data of
             [] \<Rightarrow> reply en w0 Not_registered
           | user_data # rest \<Rightarrow>
               if row_status user_data = Some ''passed'' then
                 (if \<not> in_guild c \<and> allowlist_role_id cfg \<noteq> 0 then (Inl AttributeError, w0)
                  else
                    (case assign_role_to_member cfg en w0 (author c) of
                       ((success, reason), w1) \<Rightarrow>
                         (let role_status =
                                (if reason = ''Role assigned'' then Assigned
                                 else if success then Already_assigned
                                 else Warning reason)
                          in reply en w1 (Passed role_status))))
               else reply en w0 Not_passed))"

subsection \<open>The command \<^verbatim>\<open>sync\<close> (lines 142-182)\<close>

text \<open>The body of the \<^verbatim>\<open>for\<close> loop of lines 157-174, on the rows still to visit.\<close>

fun sync_loop ::
  "config \<Rightarrow> env \<Rightarrow> id_value list \<Rightarrow> sweep_report \<Rightarrow> world \<Rightarrow> (py_error + sweep_report) \<times> world" where
  "sync_loop cfg en [] n w = (Inr n, w)"
| "sync_loop cfg en (user # users) n w =
     (case py_int user of
        Inl e \<Rightarrow> (Inl e, w)
      | Inr d_id \<Rightarrow>
          (case resolve_member en w d_id of
             (None, w1) \<Rightarrow> sync_loop cfg en users (n\<lparr>not_in_server := not_in_server n + 1\<rparr>) w1
           | (Some member, w1) \<Rightarrow>
               (case assign_role_to_member cfg en w1 member of
                  ((success, reason), w2) \<Rightarrow>
                    if success then
                      (if reason = ''Already has role''
                       then sync_loop cfg en users (n\<lparr>already_had := already_had n + 1\<rparr>) w2
                       else sync_loop cfg en users (n\<lparr>assigned := assigned n + 1\<rparr>) w2)
                    else sync_loop cfg en users (n\<lparr>failed := failed n + 1\<rparr>) w2)))"

definition sync :: "config \<Rightarrow> env \<Rightarrow> world \<Rightarrow> (py_error + sweep_report) \<times> world" where
  "sync cfg en w =
     (let w0 = emit Sync_started w in
      if channel_raises en (now w) then (Inl HTTPException, w0)
      else
        case passed_query en (now w0) of
          Inl e \<Rightarrow> (Inl e, emit Query_passed w0)
        | Inr passed_users \<Rightarrow>
            (case sync_loop cfg en passed_users
                    \<lparr>assigned = 0, already_had = 0, failed = 0, not_in_server = 0\<rparr>
                    (emit Query_passed w0) of
               (Inl e, w1) \<Rightarrow> (Inl e, w1)
             | (Inr n, w1) \<Rightarrow>
                 if channel_raises en (now w1) then (Inl HTTPException, emit (Sync_report n) w1)
                 else (Inr n, emit (Sync_report n) w1)))"

subsection \<open>Sequences of operations\<close>

text \<open>
  What happens in the process of the bot, one thing at a time: an event of the change feed
  reaches \<^verbatim>\<open>on_handle\<close>; the loop takes up a scheduled coroutine until its next
  \<^verbatim>\<open>await\<close>; a member update of the gateway reaches the cache; a command runs;
  \<^verbatim>\<open>assign_role_to_member\<close> is called on a member. A command, and a bare call, run
  from their first line to their end as one operation. \<open>step\<close> keeps the world an
  operation leaves, also when the operation raises.
\<close>

datatype operation =
    Feed "change_record option"
  | Advance nat
  | Gateway_update int
  | Verify_cmd ctx
  | Sync_cmd
  | Ensure member

fun step :: "config \<Rightarrow> env \<Rightarrow> world \<Rightarrow> operation \<Rightarrow> world" where
  "step cfg en w (Feed payload) = on_handle w payload"
| "step cfg en w (Advance i) = advance cfg en i w"
| "step cfg en w (Gateway_update d) = gateway_member_update d w"
| "step cfg en w (Verify_cmd c) = snd (verify cfg en w c)"
| "step cfg en w Sync_cmd = snd (sync cfg en w)"
| "step cfg en w (Ensure member) = snd (assign_role_to_member cfg en w member)"

definition run :: "config \<Rightarrow> env \<Rightarrow> operation list \<Rightarrow> world \<Rightarrow> world" where
  "run cfg en ops w = foldl (step cfg en) w ops"

text \<open>The operations of the event loop between two deliveries or commands.\<close>

fun is_loop_op :: "operation \<Rightarrow> bool" where
  "is_loop_op (Advance i) = True"
| "is_loop_op (Gateway_update d) = True"
| "is_loop_op other = False"

fun is_finished :: "task \<Rightarrow> bool" where
  "is_finished (Finished r) = True"
| "is_finished t = False"

subsection \<open>Observations\<close>

fun is_send_dm :: "event \<Rightarrow> bool" where
  "is_send_dm (Send_dm m ok) = True"
| "is_send_dm e = False"

definition dm_events :: "world \<Rightarrow> event list" where
  "dm_events w = filter is_send_dm (trace w)"

definition dm_count :: "world \<Rightarrow> nat" where
  "dm_count w = length (dm_events w)"

text \<open>
  \<open>grant_only r w w'\<close>: from \<open>w\<close> to \<open>w'\<close> no member has lost a role at Discord, and no
  member has gained a role other than \<open>r\<close>; and every cached member shows what it showed in
  \<open>w\<close>, or a set of roles between the one the server held in \<open>w\<close> and that set with \<open>r\<close>.
\<close>

definition grant_only :: "int \<Rightarrow> world \<Rightarrow> world \<Rightarrow> bool" where
  "grant_only r w w' =
     (\<forall>m. server_roles w m \<subseteq> server_roles w' m
        \<and> server_roles w' m \<subseteq> insert r (server_roles w m)
        \<and> (member_cache w' m = member_cache w m
            \<or> (\<exists>rs. member_cache w' m = Some rs
                 \<and> server_roles w m \<subseteq> rs \<and> rs \<subseteq> insert r (server_roles w m))))"

definition total :: "sweep_report \<Rightarrow> nat" where
  "total n = assigned n + already_had n + failed n + not_in_server n"

definition parses :: "id_value \<Rightarrow> bool" where
  "parses v = (case py_int v of Inl e \<Rightarrow> False | Inr d \<Rightarrow> True)"

subsection \<open>Following the coroutines of one event delivered several times\<close>

text \<open>
  What a coroutine scheduled for the value \<open>v\<close>, which converts to the member id \<open>d\<close>, can
  be while every \<^verbatim>\<open>add_roles\<close> request for \<open>d\<close> returns: \<open>replay_task_ok\<close>. A coroutine is
  \<open>not_checked\<close> before the test of line 38, and \<open>granting\<close> once that test has sent it to
  \<^verbatim>\<open>add_roles\<close>. \<open>replay_inv\<close> relates the world to the number \<open>dm0\<close> of direct messages
  sent before the deliveries: one more for each coroutine that has finished.
\<close>

definition replay_task_ok :: "env \<Rightarrow> int \<Rightarrow> id_value \<Rightarrow> task \<Rightarrow> bool" where
  "replay_task_ok en d v t =
     (case t of
        Scheduled v' \<Rightarrow> v' = v
      | Await_fetch d' \<Rightarrow> d' = d \<and> (\<forall>t. fetch_member_ok en t d)
      | Await_add_roles m \<Rightarrow> member_id m = d
      | Await_send m success reason \<Rightarrow>
          member_id m = d \<and> success \<and> reason \<in> {''Already has role'', ''Role assigned''}
      | Finished out \<Rightarrow>
          (\<exists>reason. out = Inr (Role_result True reason)
             \<and> reason \<in> {''Already has role'', ''Role assigned''}))"

fun not_checked :: "task \<Rightarrow> bool" where
  "not_checked (Scheduled v) = True"
| "not_checked (Await_fetch d) = True"
| "not_checked t = False"

fun granting :: "task \<Rightarrow> bool" where
  "granting (Await_add_roles m) = True"
| "granting (Await_send m success reason) = (reason = ''Role assigned'')"
| "granting (Finished out) = (out = Inr (Role_result True ''Role assigned''))"
| "granting t = False"

definition replay_inv :: "config \<Rightarrow> env \<Rightarrow> int \<Rightarrow> id_value \<Rightarrow> nat \<Rightarrow> nat \<Rightarrow> world \<Rightarrow> bool" where
  "replay_inv cfg en d v k dm0 w =
     (guild_id cfg = guild_ident w
      \<and> allowlist_role_id cfg \<in> guild_roles w
      \<and> (member_cache w d = None \<longrightarrow> (\<forall>t. fetch_member_ok en t d))
      \<and> length (tasks w) = k
      \<and> list_all (replay_task_ok en d v) (tasks w)
      \<and> dm_count w = dm0 + length (filter is_finished (tasks w))
      \<and> ((allowlist_role_id cfg \<notin> server_roles w d
            \<and> (\<forall>rs. member_cache w d = Some rs \<longrightarrow> allowlist_role_id cfg \<notin> rs)
            \<and> list_all not_checked (tasks w))
          \<or> list_ex granting (tasks w)))"

subsection \<open>A small guild\<close>

text \<open>
  Guild 1 has the role 7 in its catalog. Members 42 and 44 are in the cache; 44 holds the
  role already. User 43 is not in the guild: the cache misses and the fetch raises.
\<close>

definition ex_cfg :: config where
  "ex_cfg = \<lparr>guild_id = 1, allowlist_role_id = 7\<rparr>"

definition ex_world :: world where
  "ex_world = \<lparr>guild_ident = 1, guild_roles = {7},
     server_roles = (\<lambda>m. if m = 44 then {7} else {}),
     member_cache = (\<lambda>m. if m = 42 then Some {} else if m = 44 then Some {7} else None),
     tasks = [], trace = []\<rparr>"

definition ex_member :: member where
  "ex_member = \<lparr>member_id = 42, roles = {}\<rparr>"

definition ex_holder :: member where
  "ex_holder = \<lparr>member_id = 44, roles = {7}\<rparr>"

definition ex_passed_row :: user_row where
  "ex_passed_row = \<lparr>row_status = Some ''passed''\<rparr>"

definition ex_env :: env where
  "ex_env = \<lparr>fetch_member_ok = (\<lambda>t d. False),
     add_roles_error = (\<lambda>t m r. None),
     send_raises = (\<lambda>t m. False),
     users_query = (\<lambda>t d. Inr [ex_passed_row]),
     passed_query = (\<lambda>t. Inr [Id_digits 42, Id_digits 43, Id_digits 44]),
     channel_raises = (\<lambda>t. False)\<rparr>"

text \<open>The same outside, except that \<^verbatim>\<open>add_roles\<close> raises with the text given.\<close>

definition ex_env_failing :: "string \<Rightarrow> env" where
  "ex_env_failing s = ex_env\<lparr>add_roles_error := (\<lambda>t m r. Some s)\<rparr>"

definition ex_forbidden :: string where
  "ex_forbidden = http_exception_text 403 ''Forbidden'' 50013 ''Missing Permissions''"

definition ex_event :: change_record where
  "ex_event = \<lparr>rec_passed = True, rec_discord_id = Id_digits 42\<rparr>"

section \<open>Properties\<close>

subsection \<open>Basic facts\<close>

lemma now_emit: "now (emit e w) = Suc (now w)"
  by (simp add: now_def emit_def)

lemma decimal_nonempty: "decimal n \<noteq> []"
  by (induction n rule: decimal.induct) (subst decimal.simps, simp)

lemma decimal_hd: "hd (decimal n) \<in> set ''0123456789''"
proof (induction n rule: decimal.induct)
  case (1 n)
  show ?case
  proof (cases "n < 10")
    case True
    then have "''0123456789'' ! n \<in> set ''0123456789''" by (intro nth_mem) simp
    with True show ?thesis by (subst decimal.simps) simp
  next
    case False
    with "1" have "hd (decimal (n div 10)) \<in> set ''0123456789''" by simp
    with False show ?thesis
      by (subst decimal.simps) (simp add: decimal_nonempty)
  qed
qed

lemma http_exception_text_hd:
  "hd (http_exception_text status reason code msg) \<in> set ''0123456789''"
  using decimal_hd[of status] by (simp add: http_exception_text_def decimal_nonempty)

lemma http_exception_text_not_success:
  "http_exception_text status reason code msg \<notin> {''Already has role'', ''Role assigned''}"
proof
  assume "http_exception_text status reason code msg \<in> {''Already has role'', ''Role assigned''}"
  then have "hd (http_exception_text status reason code msg) \<in> {CHR ''A'', CHR ''R''}"
    by auto
  with http_exception_text_hd[of status reason code msg] show False by auto
qed

subsection \<open>\<^verbatim>\<open>assign_role_to_member\<close>\<close>

text \<open>
  C5. When no role identifier is configured (\<^verbatim>\<open>ALLOWLIST_ROLE_ID\<close> unset, hence zero),
  every call of \<^verbatim>\<open>assign_role_to_member\<close>, on any member and in any state of the guild,
  returns \<^verbatim>\<open>(False, "Role ID not configured")\<close> and leaves the world as it was: no request
  is issued, so no role mutation takes place.
\<close>

theorem unconfigured_role_no_mutation:
  "assign_role_to_member (cfg\<lparr>allowlist_role_id := 0\<rparr>) en w member
     = ((False, ''Role ID not configured''), w)"
  by (simp add: assign_role_to_member_def)

text \<open>
  C3. With a role identifier configured, \<^verbatim>\<open>assign_role_to_member\<close> classifies every member
  as follows. If the identifier does not resolve in the guild's role catalog, the result is
  \<^verbatim>\<open>(False, "Role not found in server")\<close> and the world is unchanged (no mutation is
  attempted). Otherwise, if the member shows the role, the result is
  \<^verbatim>\<open>(True, "Already has role")\<close> and the world is unchanged. Otherwise exactly one
  \<^verbatim>\<open>add_roles\<close> request is made: when it returns, the result is \<^verbatim>\<open>(True, "Role assigned")\<close>;
  when it raises, the result is \<open>False\<close> with the text of the exception. The call writes
  neither the member it was given nor the member cache.
\<close>

theorem assign_role_classification:
  assumes "allowlist_role_id cfg \<noteq> 0"
  shows
  "(get_role w (allowlist_role_id cfg) = None \<longrightarrow>
      assign_role_to_member cfg en w member = ((False, ''Role not found in server''), w))
   \<and> (get_role w (allowlist_role_id cfg) = Some role \<and> role \<in> roles member \<longrightarrow>
      assign_role_to_member cfg en w member = ((True, ''Already has role''), w))
   \<and> (get_role w (allowlist_role_id cfg) = Some role \<and> role \<notin> roles member
        \<and> add_roles_error en (now w) (member_id member) role = None \<longrightarrow>
      fst (assign_role_to_member cfg en w member) = (True, ''Role assigned'')
      \<and> trace (snd (assign_role_to_member cfg en w member))
          = trace w @ [Add_roles (member_id member) role]
      \<and> member_cache (snd (assign_role_to_member cfg en w member)) = member_cache w)
   \<and> (get_role w (allowlist_role_id cfg) = Some role \<and> role \<notin> roles member
        \<and> add_roles_error en (now w) (member_id member) role = Some cause \<longrightarrow>
      fst (assign_role_to_member cfg en w member) = (False, cause)
      \<and> trace (snd (assign_role_to_member cfg en w member))
          = trace w @ [Add_roles (member_id member) role]
      \<and> member_cache (snd (assign_role_to_member cfg en w member)) = member_cache w)"
  using assms
  by (simp add: assign_role_to_member_def add_roles_def emit_def)

theorem assign_role_classification_witness:
  "assign_role_to_member (ex_cfg\<lparr>allowlist_role_id := 9\<rparr>) ex_env ex_world ex_member
     = ((False, ''Role not found in server''), ex_world)
   \<and> assign_role_to_member ex_cfg ex_env ex_world ex_holder = ((True, ''Already has role''), ex_world)
   \<and> fst (assign_role_to_member ex_cfg ex_env ex_world ex_member) = (True, ''Role assigned'')
   \<and> trace (snd (assign_role_to_member ex_cfg ex_env ex_world ex_member)) = [Add_roles 42 7]
   \<and> fst (assign_role_to_member ex_cfg (ex_env_failing ''503 Service Unavailable'') ex_world ex_member)
       = (False, ''503 Service Unavailable'')
   \<and> trace (snd (assign_role_to_member ex_cfg (ex_env_failing ''503 Service Unavailable'') ex_world ex_member))
       = [Add_roles 42 7]"
  using
    assign_role_classification[where cfg="ex_cfg\<lparr>allowlist_role_id := 9\<rparr>" and w=ex_world
      and en=ex_env and member=ex_member]
    assign_role_classification[where cfg=ex_cfg and w=ex_world and role=7 and member=ex_holder
      and en=ex_env]
    assign_role_classification[where cfg=ex_cfg and w=ex_world and role=7 and member=ex_member
      and en=ex_env]
    assign_role_classification[where cfg=ex_cfg and w=ex_world and role=7 and member=ex_member
      and en="ex_env_failing ''503 Service Unavailable''" and cause="''503 Service Unavailable''"]
  by (simp add: ex_cfg_def ex_world_def ex_env_def ex_env_failing_def ex_member_def ex_holder_def
      get_role_def now_def)

text \<open>
  C1 as stated fails. In the small guild, member 42 does not hold the role. The first call
  returns \<^verbatim>\<open>(True, "Role assigned")\<close>; \<^verbatim>\<open>add_roles\<close> does not write \<^verbatim>\<open>member.roles\<close>, so a
  second call on the same member, with nothing in between, makes a second request and
  returns \<^verbatim>\<open>(True, "Role assigned")\<close> again, not \<^verbatim>\<open>(True, "Already has role")\<close>. And for
  member 44, who holds the role, already the first call returns
  \<^verbatim>\<open>(True, "Already has role")\<close>.
\<close>

theorem ensure_twice_counterexample:
  "fst (assign_role_to_member ex_cfg ex_env ex_world ex_member) = (True, ''Role assigned'')
   \<and> fst (assign_role_to_member ex_cfg ex_env
            (snd (assign_role_to_member ex_cfg ex_env ex_world ex_member)) ex_member)
       = (True, ''Role assigned'')
   \<and> trace (snd (assign_role_to_member ex_cfg ex_env
            (snd (assign_role_to_member ex_cfg ex_env ex_world ex_member)) ex_member))
       = [Add_roles 42 7, Add_roles 42 7]
   \<and> fst (assign_role_to_member ex_cfg ex_env ex_world ex_holder) = (True, ''Already has role'')"
  by (simp add: assign_role_to_member_def add_roles_def emit_def get_role_def now_def
      ex_cfg_def ex_world_def ex_env_def ex_member_def ex_holder_def)

text \<open>
  C1, amended. Let a role be configured and resolve in the catalog, let the member be in
  the cache of the guild and not show the role, and let the \<^verbatim>\<open>add_roles\<close> request of the
  first call return. Then the first call returns \<^verbatim>\<open>(True, "Role assigned")\<close> and the member
  holds the role at Discord. Once the member update of the gateway for this grant has
  reached the cache, the cached member shows the role, and the second call, on it, returns
  \<^verbatim>\<open>(True, "Already has role")\<close> and changes nothing: the roles the member holds at Discord
  are the same after either call, the roles before with the configured one added.
\<close>

theorem ensure_twice_granted_then_already:
  assumes "allowlist_role_id cfg \<noteq> 0"
    and "get_role w (allowlist_role_id cfg) = Some role"
    and "get_member w d = Some member"
    and "role \<notin> roles member"
    and "add_roles_error en (now w) d role = None"
  shows "fst (assign_role_to_member cfg en w member) = (True, ''Role assigned'')
    \<and> server_roles (snd (assign_role_to_member cfg en w member)) d
          = insert role (server_roles w d)
    \<and> get_member (gateway_member_update d (snd (assign_role_to_member cfg en w member))) d
          = Some \<lparr>member_id = d, roles = insert role (server_roles w d)\<rparr>
    \<and> assign_role_to_member cfg en
          (gateway_member_update d (snd (assign_role_to_member cfg en w member)))
          \<lparr>member_id = d, roles = insert role (server_roles w d)\<rparr>
        = ((True, ''Already has role''),
           gateway_member_update d (snd (assign_role_to_member cfg en w member)))
    \<and> server_roles (gateway_member_update d (snd (assign_role_to_member cfg en w member)))
        = server_roles (snd (assign_role_to_member cfg en w member))"
proof -
  from assms(3) obtain rs where c: "member_cache w d = Some rs"
    and m: "member = \<lparr>member_id = d, roles = rs\<rparr>"
    by (auto simp: get_member_def split: option.splits)
  from assms(2) have r: "role = allowlist_role_id cfg" "allowlist_role_id cfg \<in> guild_roles w"
    by (auto simp: get_role_def split: if_splits)
  show ?thesis
    using assms(1,4,5) c m r
    by (simp add: assign_role_to_member_def add_roles_def emit_def get_role_def get_member_def
        gateway_member_update_def)
qed

theorem ensure_twice_witness:
  "fst (assign_role_to_member ex_cfg ex_env ex_world ex_member) = (True, ''Role assigned'')
   \<and> server_roles (snd (assign_role_to_member ex_cfg ex_env ex_world ex_member)) 42 = {7}
   \<and> get_member (gateway_member_update 42 (snd (assign_role_to_member ex_cfg ex_env ex_world ex_member))) 42
       = Some \<lparr>member_id = 42, roles = {7}\<rparr>
   \<and> fst (assign_role_to_member ex_cfg ex_env
          (gateway_member_update 42 (snd (assign_role_to_member ex_cfg ex_env ex_world ex_member)))
          \<lparr>member_id = 42, roles = {7}\<rparr>)
       = (True, ''Already has role'')"
  using ensure_twice_granted_then_already[where cfg=ex_cfg and w=ex_world and role=7
      and member=ex_member and d=42 and en=ex_env]
  by (simp add: ex_cfg_def ex_world_def ex_env_def ex_member_def get_role_def get_member_def now_def)

text \<open>
  C10. In every result of \<^verbatim>\<open>assign_role_to_member\<close>, the first component is \<open>True\<close> exactly
  when the second is \<^verbatim>\<open>"Already has role"\<close> or \<^verbatim>\<open>"Role assigned"\<close>. The only free text in a
  result is the \<^verbatim>\<open>str(e)\<close> of line 46, returned with \<open>False\<close>; the statement is for every
  answer of \<^verbatim>\<open>add_roles\<close> whose text is not itself one of the two strings, which
  \<open>http_exception_text_not_success\<close> shows of every failure of a Discord request.
\<close>

theorem result_pairing:
  assumes "add_roles_error en (now w) (member_id member) (allowlist_role_id cfg)
            \<notin> {Some ''Already has role'', Some ''Role assigned''}"
  shows "fst (fst (assign_role_to_member cfg en w member)) \<longleftrightarrow>
         snd (fst (assign_role_to_member cfg en w member)) \<in> {''Already has role'', ''Role assigned''}"
  using assms
  by (auto simp add: assign_role_to_member_def add_roles_def emit_def get_role_def
      split: option.splits)

theorem result_pairing_witness:
  "(fst (fst (assign_role_to_member ex_cfg (ex_env_failing ex_forbidden) ex_world ex_member)) \<longleftrightarrow>
      snd (fst (assign_role_to_member ex_cfg (ex_env_failing ex_forbidden) ex_world ex_member))
        \<in> {''Already has role'', ''Role assigned''})
   \<and> assign_role_to_member ex_cfg (ex_env_failing ex_forbidden) ex_world ex_member
      = ((False, ex_forbidden), ex_world\<lparr>trace := [Add_roles 42 7]\<rparr>)"
proof -
  have h: "add_roles_error (ex_env_failing ex_forbidden) (now ex_world) (member_id ex_member)
             (allowlist_role_id ex_cfg) \<notin> {Some ''Already has role'', Some ''Role assigned''}"
    using http_exception_text_not_success[of 403 "''Forbidden''" 50013 "''Missing Permissions''"]
    by (simp add: ex_env_failing_def ex_env_def ex_forbidden_def)
  have e: "assign_role_to_member ex_cfg (ex_env_failing ex_forbidden) ex_world ex_member
      = ((False, ex_forbidden), ex_world\<lparr>trace := [Add_roles 42 7]\<rparr>)"
    by (simp add: assign_role_to_member_def add_roles_def emit_def get_role_def now_def
        ex_cfg_def ex_world_def ex_env_def ex_env_failing_def ex_member_def)
  show ?thesis using result_pairing[OF h] e by simp
qed

subsection \<open>Role sets only grow\<close>

lemma grant_only_refl: "grant_only r w w"
  by (auto simp: grant_only_def)

lemma grant_only_trans:
  assumes "grant_only r w w1" and "grant_only r w1 w2"
  shows "grant_only r w w2"
  unfolding grant_only_def
proof (intro allI conjI)
  fix m
  from assms have a: "server_roles w m \<subseteq> server_roles w1 m"
    "server_roles w1 m \<subseteq> insert r (server_roles w m)"
    "server_roles w1 m \<subseteq> server_roles w2 m"
    "server_roles w2 m \<subseteq> insert r (server_roles w1 m)"
    by (simp_all add: grant_only_def)
  from a show "server_roles w m \<subseteq> server_roles w2 m" by blast
  from a show "server_roles w2 m \<subseteq> insert r (server_roles w m)" by blast
  from assms have c1: "member_cache w1 m = member_cache w m
      \<or> (\<exists>rs. member_cache w1 m = Some rs \<and> server_roles w m \<subseteq> rs
            \<and> rs \<subseteq> insert r (server_roles w m))"
    and c2: "member_cache w2 m = member_cache w1 m
      \<or> (\<exists>rs. member_cache w2 m = Some rs \<and> server_roles w1 m \<subseteq> rs
            \<and> rs \<subseteq> insert r (server_roles w1 m))"
    by (simp_all add: grant_only_def)
  from c2 show "member_cache w2 m = member_cache w m
      \<or> (\<exists>rs. member_cache w2 m = Some rs \<and> server_roles w m \<subseteq> rs
            \<and> rs \<subseteq> insert r (server_roles w m))"
  proof
    assume "member_cache w2 m = member_cache w1 m"
    with c1 show ?thesis by auto
  next
    assume "\<exists>rs. member_cache w2 m = Some rs \<and> server_roles w1 m \<subseteq> rs
            \<and> rs \<subseteq> insert r (server_roles w1 m)"
    then obtain rs where "member_cache w2 m = Some rs" "server_roles w1 m \<subseteq> rs"
      "rs \<subseteq> insert r (server_roles w1 m)" by blast
    with a have "member_cache w2 m = Some rs \<and> server_roles w m \<subseteq> rs
            \<and> rs \<subseteq> insert r (server_roles w m)" by blast
    then show ?thesis by blast
  qed
qed

lemma grant_only_emit: "grant_only r w (emit e w)"
  by (auto simp: grant_only_def emit_def)

lemma grant_only_emit_right: "grant_only r w w1 \<Longrightarrow> grant_only r w (emit e w1)"
  by (auto simp: grant_only_def emit_def)

lemma grant_only_tasks: "grant_only r w w1 \<Longrightarrow> grant_only r w (w1\<lparr>tasks := ts\<rparr>)"
  by (auto simp: grant_only_def)

lemma grant_only_add_roles: "grant_only r w (snd (add_roles en w m r))"
  by (auto simp: grant_only_def add_roles_def emit_def split: option.splits)

lemma grant_only_assign:
  "grant_only (allowlist_role_id cfg) w (snd (assign_role_to_member cfg en w m))"
  using grant_only_add_roles[of "allowlist_role_id cfg" w en m]
  by (auto simp: assign_role_to_member_def get_role_def grant_only_refl split: prod.splits sum.splits)

lemma grant_only_fetch: "grant_only r w (snd (fetch_member en w d))"
  by (auto simp: grant_only_def fetch_member_def emit_def)

lemma grant_only_resolve: "grant_only r w (snd (resolve_member en w d))"
  by (simp add: resolve_member_def grant_only_fetch grant_only_refl split: option.splits)

lemma grant_only_send: "grant_only r w (snd (send_dm en w m))"
  by (auto simp: grant_only_def send_dm_def emit_def)

lemma grant_only_gateway: "grant_only r w (gateway_member_update d w)"
  by (auto simp: grant_only_def gateway_member_update_def split: option.splits)

lemma grant_only_on_handle: "grant_only r w (on_handle w payload)"
  by (simp add: on_handle_def grant_only_refl grant_only_tasks split: option.splits)

lemma grant_only_resume:
  "grant_only (allowlist_role_id cfg) w (snd (resume cfg en w t))"
proof (cases t)
  case (Scheduled v)
  then show ?thesis
    by (simp add: resume_def grant_only_refl split: option.splits sum.splits)
next
  case (Await_fetch d)
  then show ?thesis
    using grant_only_fetch[of "allowlist_role_id cfg" w en d]
    by (auto simp: resume_def split: prod.splits option.splits)
next
  case (Await_add_roles member)
  then show ?thesis
    using grant_only_add_roles[of "allowlist_role_id cfg" w en member]
    by (auto simp: resume_def split: prod.splits sum.splits)
next
  case (Await_send member success reason)
  then show ?thesis
    using grant_only_send[of "allowlist_role_id cfg" w en member]
    by (auto simp: resume_def split: prod.splits sum.splits)
next
  case (Finished out)
  then show ?thesis by (simp add: resume_def grant_only_refl)
qed

lemma grant_only_advance:
  "grant_only (allowlist_role_id cfg) w (advance cfg en i w)"
  using grant_only_resume[of cfg w en "tasks w ! i"]
  by (auto simp: advance_def grant_only_refl grant_only_tasks split: prod.splits)

lemma grant_only_verify:
  "grant_only (allowlist_role_id cfg) w (snd (verify cfg en w c))"
proof -
  let ?r = "allowlist_role_id cfg"
  let ?w0 = "emit (Query_user (member_id (author c))) w"
  have g0: "grant_only ?r w ?w0" by (rule grant_only_emit)
  have ga: "grant_only ?r w (snd (assign_role_to_member cfg en ?w0 (author c)))"
    using g0 grant_only_assign by (rule grant_only_trans)
  show ?thesis
    using g0 ga
    by (auto simp: verify_def reply_def Let_def grant_only_emit_right
        split: sum.splits list.splits prod.splits)
qed

lemma grant_only_sync_loop:
  "grant_only (allowlist_role_id cfg) w (snd (sync_loop cfg en users n w))"
proof (induction users arbitrary: n w)
  case Nil
  show ?case by (simp add: grant_only_refl)
next
  case (Cons user users)
  let ?r = "allowlist_role_id cfg"
  show ?case
  proof (cases "py_int user")
    case (Inl e)
    then show ?thesis by (simp add: grant_only_refl)
  next
    case (Inr d)
    obtain mo w1 where res: "resolve_member en w d = (mo, w1)" by (cases "resolve_member en w d")
    have g1: "grant_only ?r w w1" using grant_only_resolve[of ?r w en d] res by simp
    show ?thesis
    proof (cases mo)
      case None
      have "grant_only ?r w1
          (snd (sync_loop cfg en users (n\<lparr>not_in_server := not_in_server n + 1\<rparr>) w1))"
        by (rule Cons.IH)
      with g1 have "grant_only ?r w
          (snd (sync_loop cfg en users (n\<lparr>not_in_server := not_in_server n + 1\<rparr>) w1))"
        by (rule grant_only_trans)
      with Inr res None show ?thesis by simp
    next
      case (Some member)
      obtain success reason w2
        where ar: "assign_role_to_member cfg en w1 member = ((success, reason), w2)"
        by (cases "assign_role_to_member cfg en w1 member") auto
      have g2: "grant_only ?r w1 w2" using grant_only_assign[of cfg w1 en member] ar by simp
      have g12: "grant_only ?r w w2" using g1 g2 by (rule grant_only_trans)
      have later: "grant_only ?r w (snd (sync_loop cfg en users n' w2))" for n'
        using g12 Cons.IH by (rule grant_only_trans)
      from Inr res Some ar later show ?thesis by simp
    qed
  qed
qed

lemma grant_only_sync:
  "grant_only (allowlist_role_id cfg) w (snd (sync cfg en w))"
proof -
  let ?r = "allowlist_role_id cfg"
  let ?n0 = "\<lparr>assigned = 0, already_had = 0, failed = 0, not_in_server = 0\<rparr>"
  let ?w0 = "emit Query_passed (emit Sync_started w)"
  have g0: "grant_only ?r w ?w0" by (simp add: grant_only_emit grant_only_emit_right)
  have gl: "grant_only ?r w (snd (sync_loop cfg en users n ?w0))" for users n
    using g0 grant_only_sync_loop by (rule grant_only_trans)
  show ?thesis
  proof (cases "passed_query en (now (emit Sync_started w))")
    case (Inl e)
    then show ?thesis using g0 by (simp add: sync_def Let_def grant_only_emit)
  next
    case (Inr users)
    obtain res w1 where sl: "sync_loop cfg en users ?n0 ?w0 = (res, w1)"
      by (cases "sync_loop cfg en users ?n0 ?w0")
    have "grant_only ?r w w1" using gl[of users ?n0] sl by simp
    with Inr sl show ?thesis
      by (cases res) (simp_all add: sync_def Let_def grant_only_emit grant_only_emit_right)
  qed
qed

lemma grant_only_step:
  "grant_only (allowlist_role_id cfg) w (step cfg en w op)"
  by (cases op)
    (simp_all add: grant_only_on_handle grant_only_advance grant_only_gateway
      grant_only_verify grant_only_sync grant_only_assign)

lemma grant_only_run:
  "grant_only (allowlist_role_id cfg) w (run cfg en ops w)"
  unfolding run_def
proof (induction ops arbitrary: w)
  case Nil
  show ?case by (simp add: grant_only_refl)
next
  case (Cons op ops)
  have "grant_only (allowlist_role_id cfg) w (step cfg en w op)" by (rule grant_only_step)
  moreover have "grant_only (allowlist_role_id cfg) (step cfg en w op)
      (foldl (step cfg en) (step cfg en w op) ops)"
    by (rule Cons.IH)
  ultimately show ?case by (simp add: grant_only_trans)
qed

text \<open>
  C6. No sequence of operations (events of the change feed, the coroutines they schedule
  taken up by the loop in any order, member updates of the gateway, \<^verbatim>\<open>verify\<close>,
  \<^verbatim>\<open>sync\<close>, bare calls of \<^verbatim>\<open>assign_role_to_member\<close>, whatever the outside answers) removes
  a role from a member: the roles a member holds at Discord after the sequence contain the
  roles before, and they are either the same or the same with the configured role added.
  The cached member shows what it showed before, or a set between the roles held before
  and these with the configured role added.
\<close>

theorem no_demotion:
  "server_roles w m \<subseteq> server_roles (run cfg en ops w) m
   \<and> (server_roles (run cfg en ops w) m = server_roles w m
      \<or> server_roles (run cfg en ops w) m = insert (allowlist_role_id cfg) (server_roles w m))
   \<and> (member_cache (run cfg en ops w) m = member_cache w m
      \<or> (\<exists>rs. member_cache (run cfg en ops w) m = Some rs
            \<and> server_roles w m \<subseteq> rs
            \<and> rs \<subseteq> insert (allowlist_role_id cfg) (server_roles w m)))"
  using grant_only_run[of cfg w en ops] unfolding grant_only_def by blast

theorem no_demotion_witness:
  "7 \<in> server_roles
      (run ex_cfg (ex_env_failing ''503 Service Unavailable'')
         [Sync_cmd, Feed (Some ex_event), Advance 0, Gateway_update 44,
          Verify_cmd \<lparr>author = ex_holder, in_guild = True\<rparr>, Advance 0, Ensure ex_holder]
         ex_world) 44"
  using no_demotion[where w=ex_world and m=44 and cfg=ex_cfg
      and en="ex_env_failing ''503 Service Unavailable''"
      and ops="[Sync_cmd, Feed (Some ex_event), Advance 0, Gateway_update 44,
          Verify_cmd \<lparr>author = ex_holder, in_guild = True\<rparr>, Advance 0, Ensure ex_holder]"]
  by (auto simp: ex_world_def)

subsection \<open>Direct messages\<close>

lemma dm_events_emit:
  "dm_events (emit e w) = dm_events w @ (if is_send_dm e then [e] else [])"
  by (simp add: dm_events_def emit_def)

lemma dm_events_assign:
  "dm_events (snd (assign_role_to_member cfg en w m)) = dm_events w"
  by (simp add: assign_role_to_member_def add_roles_def dm_events_def emit_def
      split: option.splits)

lemma dm_events_resolve:
  "dm_events (snd (resolve_member en w d)) = dm_events w"
  by (simp add: resolve_member_def fetch_member_def get_member_def dm_events_def emit_def
      split: option.splits)

lemma dm_events_sync_loop:
  "dm_events (snd (sync_loop cfg en users n w)) = dm_events w"
proof (induction users arbitrary: n w)
  case Nil
  show ?case by simp
next
  case (Cons user users)
  show ?case
  proof (cases "py_int user")
    case (Inl e)
    then show ?thesis by simp
  next
    case (Inr d)
    obtain mo w1 where res: "resolve_member en w d = (mo, w1)" by (cases "resolve_member en w d")
    have d1: "dm_events w1 = dm_events w" using dm_events_resolve[of en w d] res by simp
    show ?thesis
    proof (cases mo)
      case None
      with Inr res d1 Cons.IH show ?thesis by simp
    next
      case (Some member)
      obtain success reason w2
        where ar: "assign_role_to_member cfg en w1 member = ((success, reason), w2)"
        by (cases "assign_role_to_member cfg en w1 member") auto
      have d2: "dm_events w2 = dm_events w"
        using dm_events_assign[of cfg en w1 member] ar d1 by simp
      from Inr res Some ar d2 Cons.IH show ?thesis by simp
    qed
  qed
qed

text \<open>
  C9. The command \<^verbatim>\<open>verify\<close> never calls \<^verbatim>\<open>member.send\<close>, also when its call of
  \<^verbatim>\<open>assign_role_to_member\<close> grants the role anew; neither does \<^verbatim>\<open>sync\<close>, nor
  \<^verbatim>\<open>assign_role_to_member\<close> itself. The direct messages in the trace after each of them are
  those that were there before: the congratulation is sent on the listener path only.
\<close>

theorem commands_send_no_dm:
  "dm_events (snd (verify cfg en w c)) = dm_events w
   \<and> dm_events (snd (sync cfg en w)) = dm_events w
   \<and> dm_events (snd (assign_role_to_member cfg en w member)) = dm_events w"
proof -
  have v: "dm_events (snd (verify cfg en w c)) = dm_events w"
    using dm_events_assign[of cfg en "emit (Query_user (member_id (author c))) w" "author c"]
    by (auto simp: verify_def reply_def Let_def dm_events_emit
        split: sum.splits list.splits prod.splits)
  have s: "dm_events (snd (sync cfg en w)) = dm_events w"
  proof (cases "passed_query en (now (emit Sync_started w))")
    case (Inl e)
    then show ?thesis by (simp add: sync_def Let_def dm_events_emit)
  next
    case (Inr users)
    let ?n0 = "\<lparr>assigned = 0, already_had = 0, failed = 0, not_in_server = 0\<rparr>"
    let ?w0 = "emit Query_passed (emit Sync_started w)"
    obtain res w1 where sl: "sync_loop cfg en users ?n0 ?w0 = (res, w1)"
      by (cases "sync_loop cfg en users ?n0 ?w0")
    have "dm_events w1 = dm_events w"
      using dm_events_sync_loop[of cfg en users ?n0 ?w0] sl by (simp add: dm_events_emit)
    with Inr sl show ?thesis by (cases res) (simp_all add: sync_def Let_def dm_events_emit)
  qed
  show ?thesis using v s dm_events_assign by simp
qed

theorem commands_send_no_dm_witness:
  "fst (verify ex_cfg ex_env ex_world \<lparr>author = ex_member, in_guild = True\<rparr>) = Inr (Passed Assigned)
   \<and> dm_events (snd (verify ex_cfg ex_env ex_world \<lparr>author = ex_member, in_guild = True\<rparr>)) = []"
  using commands_send_no_dm[of ex_cfg ex_env ex_world "\<lparr>author = ex_member, in_guild = True\<rparr>"
      ex_member]
  by (simp add: verify_def reply_def assign_role_to_member_def add_roles_def emit_def
      get_role_def Let_def ex_cfg_def ex_world_def ex_env_def ex_passed_row_def ex_member_def
      now_def dm_events_def)

text \<open>
  The coroutine taken up by the loop four times, with nothing in between, is
  \<^verbatim>\<open>auto_assign_role\<close> run from its first line to its return.
\<close>

lemma resume_to_the_end:
  "(case resume cfg en w (Scheduled v) of
      (t1, w1) \<Rightarrow>
        (case resume cfg en w1 t1 of
           (t2, w2) \<Rightarrow>
             (case resume cfg en w2 t2 of
                (t3, w3) \<Rightarrow> resume cfg en w3 t3)))
   = (Finished (fst (auto_assign_role cfg en w v)), snd (auto_assign_role cfg en w v))"
proof (cases "get_guild w (guild_id cfg)")
  case None
  then show ?thesis by (simp add: resume_def auto_assign_role_def)
next
  case (Some g)
  show ?thesis
  proof (cases "py_int v")
    case (Inl e)
    with Some show ?thesis by (simp add: resume_def auto_assign_role_def)
  next
    case (Inr d)
    have assign: "(case resume cfg en w1 (start_assign cfg w1 member) of
          (t2, w2) \<Rightarrow> resume cfg en w2 t2)
        = (case assign_role_to_member cfg en w1 member of
             ((success, reason), w2) \<Rightarrow>
               if success then
                 (case send_dm en w2 member of
                    (Inr u, w3) \<Rightarrow> (Finished (Inr (Role_result success reason)), w3)
                  | (Inl u, w3) \<Rightarrow> (Finished (Inr (Role_result success reason)), w3))
               else (Finished (Inr (Role_result success reason)), w2))" for w1 member
      by (simp add: start_assign_def after_assign_def resume_def assign_role_to_member_def
          get_role_def split: prod.splits sum.splits)
    have idle: "resume cfg en w' (Finished r) = (Finished r, w')" for w' r
      by (simp add: resume_def)
    show ?thesis
    proof (cases "get_member w d")
      case (Some member)
      have "(case resume cfg en w (start_assign cfg w member) of
            (t2, w2) \<Rightarrow> (case resume cfg en w2 t2 of (t3, w3) \<Rightarrow> resume cfg en w3 t3))
          = (case resume cfg en w (start_assign cfg w member) of
            (t2, w2) \<Rightarrow> resume cfg en w2 t2)"
        by (auto simp: start_assign_def after_assign_def resume_def
            split: prod.splits sum.splits option.splits)
      with \<open>get_guild w (guild_id cfg) = Some g\<close> Inr Some assign[of w member]
      show ?thesis
        by (simp add: resume_def auto_assign_role_def resolve_member_def
            split: prod.splits sum.splits)
    next
      case None
      show ?thesis
      proof (cases "fetch_member_ok en (now w) d")
        case False
        with \<open>get_guild w (guild_id cfg) = Some g\<close> Inr None show ?thesis
          by (simp add: resume_def auto_assign_role_def resolve_member_def fetch_member_def)
      next
        case True
        with \<open>get_guild w (guild_id cfg) = Some g\<close> Inr None
          assign[of "emit (Fetch_member d) w" "\<lparr>member_id = d, roles = server_roles w d\<rparr>"]
        show ?thesis
          by (simp add: resume_def auto_assign_role_def resolve_member_def fetch_member_def
              split: prod.splits sum.splits)
      qed
    qed
  qed
qed

text \<open>
  C8. A failure of the notification is swallowed. Whether \<^verbatim>\<open>member.send\<close> returns or
  raises, \<^verbatim>\<open>auto_assign_role\<close> takes the same path with the same pair from
  \<^verbatim>\<open>assign_role_to_member\<close>, never raises because of it, and leaves the same roles at
  Discord and in the cache. The same holds of every single stretch of the coroutine between
  two \<^verbatim>\<open>await\<close>s, as the event loop runs it.
\<close>

theorem notification_failure_swallowed:
  "fst (auto_assign_role cfg (en\<lparr>send_raises := f\<rparr>) w v)
     = fst (auto_assign_role cfg (en\<lparr>send_raises := g\<rparr>) w v)
   \<and> server_roles (snd (auto_assign_role cfg (en\<lparr>send_raises := f\<rparr>) w v))
     = server_roles (snd (auto_assign_role cfg (en\<lparr>send_raises := g\<rparr>) w v))
   \<and> member_cache (snd (auto_assign_role cfg (en\<lparr>send_raises := f\<rparr>) w v))
     = member_cache (snd (auto_assign_role cfg (en\<lparr>send_raises := g\<rparr>) w v))
   \<and> fst (resume cfg (en\<lparr>send_raises := f\<rparr>) w t) = fst (resume cfg (en\<lparr>send_raises := g\<rparr>) w t)
   \<and> server_roles (snd (resume cfg (en\<lparr>send_raises := f\<rparr>) w t))
     = server_roles (snd (resume cfg (en\<lparr>send_raises := g\<rparr>) w t))
   \<and> member_cache (snd (resume cfg (en\<lparr>send_raises := f\<rparr>) w t))
     = member_cache (snd (resume cfg (en\<lparr>send_raises := g\<rparr>) w t))"
proof -
  have a: "fst (auto_assign_role cfg (en\<lparr>send_raises := f\<rparr>) w v)
     = fst (auto_assign_role cfg (en\<lparr>send_raises := g\<rparr>) w v)
   \<and> server_roles (snd (auto_assign_role cfg (en\<lparr>send_raises := f\<rparr>) w v))
     = server_roles (snd (auto_assign_role cfg (en\<lparr>send_raises := g\<rparr>) w v))
   \<and> member_cache (snd (auto_assign_role cfg (en\<lparr>send_raises := f\<rparr>) w v))
     = member_cache (snd (auto_assign_role cfg (en\<lparr>send_raises := g\<rparr>) w v))"
    by (simp add: auto_assign_role_def resolve_member_def fetch_member_def
        assign_role_to_member_def add_roles_def send_dm_def emit_def
        split: option.splits sum.splits prod.splits)
  have r: "fst (resume cfg (en\<lparr>send_raises := f\<rparr>) w t) = fst (resume cfg (en\<lparr>send_raises := g\<rparr>) w t)
   \<and> server_roles (snd (resume cfg (en\<lparr>send_raises := f\<rparr>) w t))
     = server_roles (snd (resume cfg (en\<lparr>send_raises := g\<rparr>) w t))
   \<and> member_cache (snd (resume cfg (en\<lparr>send_raises := f\<rparr>) w t))
     = member_cache (snd (resume cfg (en\<lparr>send_raises := g\<rparr>) w t))"
    by (cases t)
      (simp_all add: resume_def fetch_member_def add_roles_def send_dm_def emit_def
        split: option.splits sum.splits prod.splits)
  from a r show ?thesis by simp
qed

theorem notification_failure_swallowed_witness:
  "fst (auto_assign_role ex_cfg (ex_env\<lparr>send_raises := (\<lambda>t m. True)\<rparr>) ex_world (Id_digits 42))
     = Inr (Role_result True ''Role assigned'')
   \<and> trace (snd (auto_assign_role ex_cfg (ex_env\<lparr>send_raises := (\<lambda>t m. True)\<rparr>) ex_world (Id_digits 42)))
     = [Add_roles 42 7, Send_dm 42 False]
   \<and> resume ex_cfg (ex_env\<lparr>send_raises := (\<lambda>t m. True)\<rparr>) ex_world
        (Await_send ex_member True ''Role assigned'')
     = (Finished (Inr (Role_result True ''Role assigned'')), ex_world\<lparr>trace := [Send_dm 42 False]\<rparr>)"
  using notification_failure_swallowed[where cfg=ex_cfg and en=ex_env and f="\<lambda>t m. True"
      and g="\<lambda>t m. False" and w=ex_world and v="Id_digits 42"
      and t="Await_send ex_member True ''Role assigned''"]
  by (simp add: auto_assign_role_def resume_def resolve_member_def get_member_def get_guild_def
      assign_role_to_member_def add_roles_def send_dm_def emit_def get_role_def
      ex_cfg_def ex_world_def ex_env_def ex_member_def now_def)

subsection \<open>The sweep\<close>

lemma sync_loop_total:
  "sync_loop cfg en users n w = (Inr n', w') \<Longrightarrow> total n' = total n + length users"
proof (induction users arbitrary: n w)
  case Nil
  then show ?case by simp
next
  case (Cons user users)
  from Cons.prems obtain d where d: "py_int user = Inr d"
    by (cases "py_int user") simp_all
  obtain mo w1 where res: "resolve_member en w d = (mo, w1)" by (cases "resolve_member en w d")
  show ?case
  proof (cases mo)
    case None
    with Cons.prems d res
    have "sync_loop cfg en users (n\<lparr>not_in_server := not_in_server n + 1\<rparr>) w1 = (Inr n', w')"
      by simp
    from Cons.IH[OF this] show ?thesis by (simp add: total_def)
  next
    case (Some member)
    obtain success reason w2
      where ar: "assign_role_to_member cfg en w1 member = ((success, reason), w2)"
      by (cases "assign_role_to_member cfg en w1 member") auto
    consider (had) "success" "reason = ''Already has role''"
      | (new) "success" "reason \<noteq> ''Already has role''"
      | (fail) "\<not> success" by blast
    then show ?thesis
    proof cases
      case had
      with Cons.prems d res Some ar
      have "sync_loop cfg en users (n\<lparr>already_had := already_had n + 1\<rparr>) w2 = (Inr n', w')"
        by simp
      from Cons.IH[OF this] show ?thesis by (simp add: total_def)
    next
      case new
      with Cons.prems d res Some ar
      have "sync_loop cfg en users (n\<lparr>assigned := assigned n + 1\<rparr>) w2 = (Inr n', w')"
        by simp
      from Cons.IH[OF this] show ?thesis by (simp add: total_def)
    next
      case fail
      with Cons.prems d res Some ar
      have "sync_loop cfg en users (n\<lparr>failed := failed n + 1\<rparr>) w2 = (Inr n', w')"
        by simp
      from Cons.IH[OF this] show ?thesis by (simp add: total_def)
    qed
  qed
qed

text \<open>
  C4. Whenever \<^verbatim>\<open>sync\<close> returns its report for a listing of \<open>N\<close> passed users, the four
  counters add up to \<open>N\<close>: every record is counted once, in one counter.
\<close>

theorem sweep_counters_sum:
  assumes "passed_query en (now (emit Sync_started w)) = Inr passed_users"
    and "sync cfg en w = (Inr n, w')"
  shows "assigned n + already_had n + failed n + not_in_server n = length passed_users"
proof -
  let ?n0 = "\<lparr>assigned = 0, already_had = 0, failed = 0, not_in_server = 0\<rparr>"
  let ?w0 = "emit Query_passed (emit Sync_started w)"
  obtain res w1 where sl: "sync_loop cfg en passed_users ?n0 ?w0 = (res, w1)"
    by (cases "sync_loop cfg en passed_users ?n0 ?w0")
  from assms sl have "res = Inr n"
    by (cases res) (simp_all add: sync_def Let_def split: if_splits)
  with sl have "total n = total ?n0 + length passed_users"
    by (intro sync_loop_total) simp
  then show ?thesis by (simp add: total_def)
qed

theorem sweep_counters_sum_witness:
  "sync ex_cfg ex_env ex_world
     = (Inr \<lparr>assigned = 1, already_had = 1, failed = 0, not_in_server = 1\<rparr>,
        snd (sync ex_cfg ex_env ex_world))
   \<and> assigned \<lparr>assigned = 1, already_had = 1, failed = 0, not_in_server = 1\<rparr>
     + already_had \<lparr>assigned = 1, already_had = 1, failed = 0, not_in_server = 1\<rparr>
     + failed \<lparr>assigned = 1, already_had = 1, failed = 0, not_in_server = 1\<rparr>
     + not_in_server \<lparr>assigned = 1, already_had = 1, failed = 0, not_in_server = 1\<rparr>
     = length [Id_digits 42, Id_digits 43, Id_digits 44]"
proof -
  have q: "passed_query ex_env (now (emit Sync_started ex_world))
      = Inr [Id_digits 42, Id_digits 43, Id_digits 44]"
    by (simp add: ex_env_def)
  have s: "sync ex_cfg ex_env ex_world
     = (Inr \<lparr>assigned = 1, already_had = 1, failed = 0, not_in_server = 1\<rparr>,
        snd (sync ex_cfg ex_env ex_world))"
    by (simp add: sync_def Let_def resolve_member_def get_member_def fetch_member_def
        assign_role_to_member_def add_roles_def emit_def get_role_def
        ex_cfg_def ex_world_def ex_env_def now_def)
  show ?thesis using s sweep_counters_sum[OF q s] by simp
qed

subsection \<open>Replies of the commands\<close>

lemma sync_loop_completes:
  "list_all parses users \<Longrightarrow> \<exists>n'. fst (sync_loop cfg en users n w) = Inr n'"
proof (induction users arbitrary: n w)
  case Nil
  show ?case by simp
next
  case (Cons user users)
  from Cons.prems obtain d where d: "py_int user = Inr d"
    by (cases "py_int user") (simp_all add: parses_def)
  from Cons.prems have rest: "list_all parses users" by simp
  have ih: "\<exists>n'. fst (sync_loop cfg en users m w1) = Inr n'" for m w1
    using Cons.IH[OF rest] .
  show ?case
    using d ih by (auto split: prod.splits option.splits)
qed

text \<open>
  C7 as stated fails. When the backend query of \<^verbatim>\<open>verify\<close> raises, the command raises and
  sends no reply. When one listed \<^verbatim>\<open>discord_id\<close> does not convert to an integer, \<^verbatim>\<open>sync\<close>
  raises at line 158, after it has made the request for the member before it, and sends no
  report.
\<close>

theorem commands_raise_counterexample:
  "verify ex_cfg (ex_env\<lparr>users_query := (\<lambda>t d. Inl (BackendError ''timeout''))\<rparr>) ex_world
       \<lparr>author = ex_member, in_guild = True\<rparr>
     = (Inl (BackendError ''timeout''), ex_world\<lparr>trace := [Query_user 42]\<rparr>)
   \<and> fst (sync ex_cfg
        (ex_env\<lparr>passed_query := (\<lambda>t. Inr [Id_digits 42, Id_malformed, Id_digits 44])\<rparr>) ex_world)
     = Inl ValueError
   \<and> trace (snd (sync ex_cfg
        (ex_env\<lparr>passed_query := (\<lambda>t. Inr [Id_digits 42, Id_malformed, Id_digits 44])\<rparr>) ex_world))
     = [Sync_started, Query_passed, Add_roles 42 7]"
  by (simp add: verify_def reply_def sync_def Let_def resolve_member_def get_member_def
      fetch_member_def assign_role_to_member_def add_roles_def emit_def get_role_def
      ex_cfg_def ex_world_def ex_env_def ex_member_def now_def)

text \<open>
  C7, amended. As long as the messages to the channel themselves go through: \<^verbatim>\<open>verify\<close>,
  sent in the guild, replies whenever its backend query returns, and \<^verbatim>\<open>sync\<close> sends its
  report of four counters whenever the backend listing returns and every listed
  \<^verbatim>\<open>discord_id\<close> converts to an integer. In both, the reply is the last request made, and
  no failure of \<^verbatim>\<open>add_roles\<close> or of a member fetch prevents it. A grant that fails does not
  raise: \<^verbatim>\<open>verify\<close> replies with the warning status that carries the text of the
  exception (when that text is not \<^verbatim>\<open>"Role assigned"\<close>, which line 134 tests first), and
  \<^verbatim>\<open>sync\<close> counts the record as failed and goes on with the next; a member that cannot
  be fetched is counted as not in the server.
\<close>

theorem commands_reply:
  "(users_query en (now w) (member_id (author c)) = Inr data \<and> in_guild c
        \<and> (\<forall>t. \<not> channel_raises en t) \<longrightarrow>
      (\<exists>r. fst (verify cfg en w c) = Inr r
          \<and> trace (snd (verify cfg en w c)) \<noteq> []
          \<and> last (trace (snd (verify cfg en w c))) = Verify_reply r))
   \<and> (passed_query en (now (emit Sync_started w)) = Inr passed_users
        \<and> list_all parses passed_users \<and> (\<forall>t. \<not> channel_raises en t) \<longrightarrow>
      (\<exists>n. fst (sync cfg en w) = Inr n
          \<and> trace (snd (sync cfg en w)) \<noteq> []
          \<and> last (trace (snd (sync cfg en w))) = Sync_report n))
   \<and> (users_query en (now w) (member_id (author c)) = Inr (row # rest)
        \<and> row_status row = Some ''passed'' \<and> in_guild c
        \<and> (\<forall>t. \<not> channel_raises en t)
        \<and> assign_role_to_member cfg en (emit (Query_user (member_id (author c))) w) (author c)
            = ((False, reason), w1)
        \<and> reason \<noteq> ''Role assigned'' \<longrightarrow>
      verify cfg en w c
        = (Inr (Passed (Warning reason)), emit (Verify_reply (Passed (Warning reason))) w1))
   \<and> (py_int user = Inr d \<and> resolve_member en w d = (Some member, w1)
        \<and> assign_role_to_member cfg en w1 member = ((False, reason), w2) \<longrightarrow>
      sync_loop cfg en (user # users) n w
        = sync_loop cfg en users (n\<lparr>failed := failed n + 1\<rparr>) w2)
   \<and> (py_int user = Inr d \<and> resolve_member en w d = (None, w1) \<longrightarrow>
      sync_loop cfg en (user # users) n w
        = sync_loop cfg en users (n\<lparr>not_in_server := not_in_server n + 1\<rparr>) w1)"
proof (intro conjI impI)
  assume "users_query en (now w) (member_id (author c)) = Inr data \<and> in_guild c
      \<and> (\<forall>t. \<not> channel_raises en t)"
  then show "\<exists>r. fst (verify cfg en w c) = Inr r
          \<and> trace (snd (verify cfg en w c)) \<noteq> []
          \<and> last (trace (snd (verify cfg en w c))) = Verify_reply r"
    by (auto simp: verify_def reply_def Let_def emit_def split: list.splits prod.splits)
next
  let ?n0 = "\<lparr>assigned = 0, already_had = 0, failed = 0, not_in_server = 0\<rparr>"
  let ?w0 = "emit Query_passed (emit Sync_started w)"
  assume a: "passed_query en (now (emit Sync_started w)) = Inr passed_users
        \<and> list_all parses passed_users \<and> (\<forall>t. \<not> channel_raises en t)"
  then obtain n' where "fst (sync_loop cfg en passed_users ?n0 ?w0) = Inr n'"
    using sync_loop_completes[of passed_users cfg en ?n0 ?w0] by blast
  then obtain w1 where "sync_loop cfg en passed_users ?n0 ?w0 = (Inr n', w1)"
    by (cases "sync_loop cfg en passed_users ?n0 ?w0") simp
  with a show "\<exists>n. fst (sync cfg en w) = Inr n
          \<and> trace (snd (sync cfg en w)) \<noteq> []
          \<and> last (trace (snd (sync cfg en w))) = Sync_report n"
    by (simp add: sync_def Let_def emit_def)
next
  assume "users_query en (now w) (member_id (author c)) = Inr (row # rest)
        \<and> row_status row = Some ''passed'' \<and> in_guild c
        \<and> (\<forall>t. \<not> channel_raises en t)
        \<and> assign_role_to_member cfg en (emit (Query_user (member_id (author c))) w) (author c)
            = ((False, reason), w1)
        \<and> reason \<noteq> ''Role assigned''"
  then show "verify cfg en w c
        = (Inr (Passed (Warning reason)), emit (Verify_reply (Passed (Warning reason))) w1)"
    by (simp add: verify_def reply_def Let_def)
next
  assume "py_int user = Inr d \<and> resolve_member en w d = (Some member, w1)
        \<and> assign_role_to_member cfg en w1 member = ((False, reason), w2)"
  then show "sync_loop cfg en (user # users) n w
        = sync_loop cfg en users (n\<lparr>failed := failed n + 1\<rparr>) w2"
    by simp
next
  assume "py_int user = Inr d \<and> resolve_member en w d = (None, w1)"
  then show "sync_loop cfg en (user # users) n w
        = sync_loop cfg en users (n\<lparr>not_in_server := not_in_server n + 1\<rparr>) w1"
    by simp
qed

theorem commands_reply_witness:
  "verify ex_cfg (ex_env_failing ex_forbidden) ex_world \<lparr>author = ex_member, in_guild = True\<rparr>
     = (Inr (Passed (Warning ex_forbidden)),
        ex_world\<lparr>trace := [Query_user 42, Add_roles 42 7, Verify_reply (Passed (Warning ex_forbidden))]\<rparr>)
   \<and> fst (sync ex_cfg (ex_env_failing ex_forbidden) ex_world)
     = Inr \<lparr>assigned = 0, already_had = 1, failed = 1, not_in_server = 1\<rparr>
   \<and> last (trace (snd (sync ex_cfg (ex_env_failing ex_forbidden) ex_world)))
     = Sync_report \<lparr>assigned = 0, already_had = 1, failed = 1, not_in_server = 1\<rparr>"
proof -
  have ne: "ex_forbidden \<noteq> ''Role assigned''"
    using http_exception_text_not_success[of 403 "''Forbidden''" 50013 "''Missing Permissions''"]
    by (auto simp: ex_forbidden_def)
  have q: "users_query (ex_env_failing ex_forbidden) (now ex_world)
        (member_id (author \<lparr>author = ex_member, in_guild = True\<rparr>)) = Inr (ex_passed_row # [])"
    by (simp add: ex_env_failing_def ex_env_def)
  have ch: "\<forall>t. \<not> channel_raises (ex_env_failing ex_forbidden) t"
    by (simp add: ex_env_failing_def ex_env_def)
  have p: "passed_query (ex_env_failing ex_forbidden) (now (emit Sync_started ex_world))
      = Inr [Id_digits 42, Id_digits 43, Id_digits 44]"
    by (simp add: ex_env_failing_def ex_env_def)
  have a: "assign_role_to_member ex_cfg (ex_env_failing ex_forbidden)
        (emit (Query_user (member_id (author \<lparr>author = ex_member, in_guild = True\<rparr>))) ex_world)
        (author \<lparr>author = ex_member, in_guild = True\<rparr>)
      = ((False, ex_forbidden), ex_world\<lparr>trace := [Query_user 42, Add_roles 42 7]\<rparr>)"
    by (simp add: assign_role_to_member_def add_roles_def emit_def get_role_def now_def
        ex_cfg_def ex_world_def ex_env_def ex_env_failing_def ex_member_def)
  have s: "sync ex_cfg (ex_env_failing ex_forbidden) ex_world
      = (Inr \<lparr>assigned = 0, already_had = 1, failed = 1, not_in_server = 1\<rparr>,
         snd (sync ex_cfg (ex_env_failing ex_forbidden) ex_world))
      \<and> last (trace (snd (sync ex_cfg (ex_env_failing ex_forbidden) ex_world)))
        = Sync_report \<lparr>assigned = 0, already_had = 1, failed = 1, not_in_server = 1\<rparr>"
    by (simp add: sync_def Let_def resolve_member_def get_member_def fetch_member_def
        assign_role_to_member_def add_roles_def emit_def get_role_def
        ex_cfg_def ex_world_def ex_env_def ex_env_failing_def now_def)
  show ?thesis
    using commands_reply[where en="ex_env_failing ex_forbidden" and w=ex_world
      and c="\<lparr>author = ex_member, in_guild = True\<rparr>" and data="[ex_passed_row]"
      and row=ex_passed_row and rest="[]" and cfg=ex_cfg and reason=ex_forbidden
      and ?w1.0="ex_world\<lparr>trace := [Query_user 42, Add_roles 42 7]\<rparr>"
      and passed_users="[Id_digits 42, Id_digits 43, Id_digits 44]"]
      ne q ch p a s
    by (simp add: ex_passed_row_def emit_def parses_def ex_world_def)
qed

subsection \<open>Replaying an event\<close>

lemma list_all_update: "list_all P xs \<Longrightarrow> P y \<Longrightarrow> list_all P (xs[i := y])"
  by (induction xs arbitrary: i) (auto split: nat.splits)

lemma list_all_nth: "list_all P xs \<Longrightarrow> i < length xs \<Longrightarrow> P (xs ! i)"
  by (simp add: list_all_length)

lemma list_ex_update_new: "i < length xs \<Longrightarrow> P y \<Longrightarrow> list_ex P (xs[i := y])"
  by (induction xs arbitrary: i) (auto split: nat.splits)

lemma list_ex_update_keep:
  "list_ex P xs \<Longrightarrow> (P (xs ! i) \<longrightarrow> P y) \<Longrightarrow> list_ex P (xs[i := y])"
  by (induction xs arbitrary: i) (auto split: nat.splits)

lemma filter_length_update:
  "i < length xs \<Longrightarrow>
     length (filter P (xs[i := y])) + (if P (xs ! i) then 1 else 0)
       = length (filter P xs) + (if P y then 1 else 0)"
proof (induction xs arbitrary: i)
  case Nil
  then show ?case by simp
next
  case (Cons x xs)
  show ?case
  proof (cases i)
    case 0
    then show ?thesis by simp
  next
    case (Suc j)
    with Cons.prems have "j < length xs" by simp
    from Cons.IH[OF this] Suc show ?thesis by simp
  qed
qed

text \<open>One stretch of one of the coroutines, in a world where the invariant holds.\<close>

lemma resume_replay:
  assumes g: "guild_id cfg = guild_ident w"
    and r0: "allowlist_role_id cfg \<noteq> 0"
    and r1: "allowlist_role_id cfg \<in> guild_roles w"
    and v: "py_int v = Inr d"
    and c: "member_cache w d = None \<longrightarrow> (\<forall>t. fetch_member_ok en t d)"
    and a: "\<forall>t. add_roles_error en t d (allowlist_role_id cfg) = None"
    and ok: "replay_task_ok en d v t"
  shows "replay_task_ok en d v (fst (resume cfg en w t))
    \<and> guild_ident (snd (resume cfg en w t)) = guild_ident w
    \<and> guild_roles (snd (resume cfg en w t)) = guild_roles w
    \<and> member_cache (snd (resume cfg en w t)) = member_cache w
    \<and> tasks (snd (resume cfg en w t)) = tasks w
    \<and> dm_count (snd (resume cfg en w t)) + (if is_finished t then 1 else 0)
        = dm_count w + (if is_finished (fst (resume cfg en w t)) then 1 else 0)
    \<and> (granting t \<longrightarrow> granting (fst (resume cfg en w t)))
    \<and> (not_checked t \<longrightarrow> server_roles (snd (resume cfg en w t)) = server_roles w)
    \<and> (not_checked t \<and> allowlist_role_id cfg \<notin> server_roles w d
          \<and> (\<forall>rs. member_cache w d = Some rs \<longrightarrow> allowlist_role_id cfg \<notin> rs)
        \<longrightarrow> not_checked (fst (resume cfg en w t)) \<or> granting (fst (resume cfg en w t)))"
proof (cases t)
  case (Scheduled v')
  with ok have "v' = v" by (simp add: replay_task_ok_def)
  with Scheduled g r0 r1 v c show ?thesis
    by (auto simp: resume_def start_assign_def after_assign_def get_guild_def get_role_def
        get_member_def replay_task_ok_def split: option.splits)
next
  case (Await_fetch d')
  with ok have "d' = d" "\<forall>t. fetch_member_ok en t d" by (simp_all add: replay_task_ok_def)
  with Await_fetch r0 r1 show ?thesis
    by (auto simp: resume_def fetch_member_def start_assign_def after_assign_def get_role_def
        emit_def dm_count_def dm_events_def replay_task_ok_def)
next
  case (Await_add_roles m)
  with ok have "member_id m = d" by (simp add: replay_task_ok_def)
  with Await_add_roles a show ?thesis
    by (simp add: resume_def add_roles_def after_assign_def emit_def dm_count_def dm_events_def
        replay_task_ok_def)
next
  case (Await_send m success reason)
  with ok have "member_id m = d" "success" "reason \<in> {''Already has role'', ''Role assigned''}"
    by (simp_all add: replay_task_ok_def)
  with Await_send show ?thesis
    by (auto simp: resume_def send_dm_def emit_def dm_count_def dm_events_def replay_task_ok_def)
next
  case (Finished out)
  with ok show ?thesis by (simp add: resume_def)
qed

lemma replay_inv_advance:
  assumes r0: "allowlist_role_id cfg \<noteq> 0"
    and v: "py_int v = Inr d"
    and a: "\<forall>t. add_roles_error en t d (allowlist_role_id cfg) = None"
    and inv: "replay_inv cfg en d v k dm0 w"
  shows "replay_inv cfg en d v k dm0 (advance cfg en i w)"
proof (cases "i < length (tasks w)")
  case False
  with inv show ?thesis by (simp add: advance_def)
next
  case True
  let ?t = "tasks w ! i"
  let ?t' = "fst (resume cfg en w ?t)"
  let ?w1 = "snd (resume cfg en w ?t)"
  let ?r = "allowlist_role_id cfg"
  from inv have g: "guild_id cfg = guild_ident w" and r1: "?r \<in> guild_roles w"
    and c: "member_cache w d = None \<longrightarrow> (\<forall>t. fetch_member_ok en t d)"
    and len: "length (tasks w) = k"
    and all_ok: "list_all (replay_task_ok en d v) (tasks w)"
    and dm: "dm_count w = dm0 + length (filter is_finished (tasks w))"
    and phase: "(?r \<notin> server_roles w d
            \<and> (\<forall>rs. member_cache w d = Some rs \<longrightarrow> ?r \<notin> rs)
            \<and> list_all not_checked (tasks w))
          \<or> list_ex granting (tasks w)"
    by (simp_all add: replay_inv_def)
  have ok: "replay_task_ok en d v ?t" using all_ok True by (rule list_all_nth)
  note res = resume_replay[OF g r0 r1 v c a ok]
  obtain t' w1 where rs: "resume cfg en w ?t = (t', w1)" by (cases "resume cfg en w ?t")
  with res have "tasks w1 = tasks w" by simp
  with True rs have adv: "advance cfg en i w = ?w1\<lparr>tasks := (tasks w)[i := ?t']\<rparr>"
    by (simp add: advance_def)
  have p1: "list_all (replay_task_ok en d v) ((tasks w)[i := ?t'])"
    using list_all_update[of "replay_task_ok en d v" "tasks w" ?t' i] all_ok res by simp
  have "length (filter is_finished ((tasks w)[i := ?t'])) + (if is_finished ?t then 1 else 0)
      = length (filter is_finished (tasks w)) + (if is_finished ?t' then 1 else 0)"
    using True by (rule filter_length_update)
  with dm res have p2: "dm_count ?w1 = dm0 + length (filter is_finished ((tasks w)[i := ?t']))"
    by (simp split: if_splits)
  have p3: "(?r \<notin> server_roles ?w1 d
            \<and> (\<forall>rs. member_cache ?w1 d = Some rs \<longrightarrow> ?r \<notin> rs)
            \<and> list_all not_checked ((tasks w)[i := ?t']))
          \<or> list_ex granting ((tasks w)[i := ?t'])"
    using phase
  proof
    assume l: "?r \<notin> server_roles w d
            \<and> (\<forall>rs. member_cache w d = Some rs \<longrightarrow> ?r \<notin> rs)
            \<and> list_all not_checked (tasks w)"
    with True have nc: "not_checked ?t" by (simp add: list_all_length)
    with l res have "not_checked ?t' \<or> granting ?t'" by blast
    then show ?thesis
    proof
      assume "not_checked ?t'"
      with l have "list_all not_checked ((tasks w)[i := ?t'])"
        using list_all_update[of not_checked "tasks w" ?t' i] by simp
      with l nc res show ?thesis by simp
    next
      assume "granting ?t'"
      with True have "list_ex granting ((tasks w)[i := ?t'])"
        using list_ex_update_new[of i "tasks w" granting ?t'] by simp
      then show ?thesis by simp
    qed
  next
    assume "list_ex granting (tasks w)"
    then have "list_ex granting ((tasks w)[i := ?t'])"
      using res list_ex_update_keep[of granting "tasks w" i ?t'] by simp
    then show ?thesis by simp
  qed
  show ?thesis
    unfolding adv replay_inv_def
    using g r1 c len res p1 p2 p3 by (simp add: dm_count_def dm_events_def)
qed

lemma replay_inv_gateway:
  assumes "replay_inv cfg en d v k dm0 w"
  shows "replay_inv cfg en d v k dm0 (gateway_member_update m w)"
  using assms
  by (auto simp: replay_inv_def gateway_member_update_def dm_count_def dm_events_def
      split: option.splits)

lemma replay_inv_run:
  assumes r0: "allowlist_role_id cfg \<noteq> 0"
    and v: "py_int v = Inr d"
    and a: "\<forall>t. add_roles_error en t d (allowlist_role_id cfg) = None"
  shows "list_all is_loop_op ops \<Longrightarrow> replay_inv cfg en d v k dm0 w
    \<Longrightarrow> replay_inv cfg en d v k dm0 (run cfg en ops w)"
  unfolding run_def
proof (induction ops arbitrary: w)
  case Nil
  then show ?case by simp
next
  case (Cons op ops)
  from Cons.prems have "is_loop_op op" by simp
  then have "replay_inv cfg en d v k dm0 (step cfg en w op)"
    using Cons.prems(2) replay_inv_advance[OF r0 v a] replay_inv_gateway
    by (cases op) simp_all
  with Cons show ?case by simp
qed

text \<open>
  C2 as stated fails. In the small guild, the same passed record for member 42 is delivered
  twice. The loop runs the first coroutine to its end, then the second: the cached member
  still shows no role, so the second makes its own request and also ends with
  \<^verbatim>\<open>(True, "Role assigned")\<close>, not with \<^verbatim>\<open>(True, "Already has role")\<close>; and \<^verbatim>\<open>member.send\<close>
  is called by both, twice and not at most once. Line 99 tests \<^verbatim>\<open>success\<close>, which is \<open>True\<close>
  for both results.
\<close>

theorem replay_two_notifications_counterexample:
  "tasks (run ex_cfg ex_env
      [Feed (Some ex_event), Feed (Some ex_event),
       Advance 0, Advance 0, Advance 0, Advance 1, Advance 1, Advance 1] ex_world)
     = [Finished (Inr (Role_result True ''Role assigned'')),
        Finished (Inr (Role_result True ''Role assigned''))]
   \<and> trace (run ex_cfg ex_env
      [Feed (Some ex_event), Feed (Some ex_event),
       Advance 0, Advance 0, Advance 0, Advance 1, Advance 1, Advance 1] ex_world)
     = [Add_roles 42 7, Send_dm 42 True, Add_roles 42 7, Send_dm 42 True]
   \<and> \<not> dm_count (run ex_cfg ex_env
      [Feed (Some ex_event), Feed (Some ex_event),
       Advance 0, Advance 0, Advance 0, Advance 1, Advance 1, Advance 1] ex_world) \<le> 1"
  by (simp add: run_def on_handle_def advance_def resume_def start_assign_def after_assign_def
      get_guild_def get_member_def get_role_def add_roles_def send_dm_def emit_def now_def
      dm_count_def dm_events_def ex_cfg_def ex_world_def ex_env_def ex_event_def)

text \<open>
  C2, amended. Let the same passed record, whose \<^verbatim>\<open>discord_id\<close> is true and converts to the
  integer \<open>d\<close>, be delivered twice to \<^verbatim>\<open>on_handle\<close>, which schedules \<^verbatim>\<open>auto_assign_role\<close>
  twice, while no other coroutine is scheduled. Let the member be present in the guild (in
  the cache, or fetched with success) and hold the configured role neither at Discord nor in
  the cache, let the role resolve in the catalog, and let every \<^verbatim>\<open>add_roles\<close> request for the
  member return. Then, however the loop interleaves the two coroutines at their
  \<^verbatim>\<open>await\<close>s and whenever member updates reach the cache, once both have finished: each has
  ended with \<^verbatim>\<open>success\<close> true, at least one with \<^verbatim>\<open>(True, "Role assigned")\<close>, the other with
  that again or with \<^verbatim>\<open>(True, "Already has role")\<close>; and \<^verbatim>\<open>member.send\<close> has been called once
  for each delivery, twice over the two.
\<close>

theorem replay_notifies_each_delivery:
  assumes "guild_id cfg = guild_ident w"
    and "allowlist_role_id cfg \<noteq> 0"
    and "get_role w (allowlist_role_id cfg) = Some role"
    and "rec_passed ev" and "truthy (rec_discord_id ev)"
    and "py_int (rec_discord_id ev) = Inr d"
    and "member_cache w d \<noteq> None \<or> (\<forall>t. fetch_member_ok en t d)"
    and "role \<notin> server_roles w d"
    and "\<forall>rs. member_cache w d = Some rs \<longrightarrow> role \<notin> rs"
    and "\<forall>t. add_roles_error en t d role = None"
    and "tasks w = []"
    and "list_all is_loop_op ops"
    and "list_all is_finished
           (tasks (run cfg en (Feed (Some ev) # Feed (Some ev) # ops) w))"
  shows "\<exists>r1 r2.
      tasks (run cfg en (Feed (Some ev) # Feed (Some ev) # ops) w)
        = [Finished (Inr (Role_result True r1)), Finished (Inr (Role_result True r2))]
      \<and> r1 \<in> {''Already has role'', ''Role assigned''}
      \<and> r2 \<in> {''Already has role'', ''Role assigned''}
      \<and> (r1 = ''Role assigned'' \<or> r2 = ''Role assigned'')
      \<and> dm_count (run cfg en (Feed (Some ev) # Feed (Some ev) # ops) w) = dm_count w + 2"
proof -
  let ?v = "rec_discord_id ev"
  let ?w2 = "w\<lparr>tasks := [Scheduled ?v, Scheduled ?v]\<rparr>"
  let ?end = "run cfg en ops ?w2"
  from assms(3) have role: "role = allowlist_role_id cfg" "allowlist_role_id cfg \<in> guild_roles w"
    by (auto simp: get_role_def split: if_splits)
  have fed: "run cfg en (Feed (Some ev) # Feed (Some ev) # ops) w = ?end"
    using assms(4,5,11) by (simp add: run_def on_handle_def)
  have init: "replay_inv cfg en d ?v 2 (dm_count w) ?w2"
    using assms(1,7,8,9) role
    by (auto simp: replay_inv_def replay_task_ok_def dm_count_def dm_events_def)
  have a: "\<forall>t. add_roles_error en t d (allowlist_role_id cfg) = None"
    using assms(10) role by simp
  have inv: "replay_inv cfg en d ?v 2 (dm_count w) ?end"
    using assms(12) init by (rule replay_inv_run[OF assms(2) assms(6) a])
  from inv have len: "length (tasks ?end) = 2" by (simp add: replay_inv_def)
  then obtain t1 t2 where ts: "tasks ?end = [t1, t2]"
    by (cases "tasks ?end"; cases "tl (tasks ?end)") auto
  from assms(13) fed ts have fin: "is_finished t1" "is_finished t2" by simp_all
  from inv ts have ok: "replay_task_ok en d ?v t1" "replay_task_ok en d ?v t2"
    by (simp_all add: replay_inv_def)
  from fin(1) ok(1) obtain r1 where t1: "t1 = Finished (Inr (Role_result True r1))"
    "r1 \<in> {''Already has role'', ''Role assigned''}"
    by (cases t1) (auto simp: replay_task_ok_def)
  from fin(2) ok(2) obtain r2 where t2: "t2 = Finished (Inr (Role_result True r2))"
    "r2 \<in> {''Already has role'', ''Role assigned''}"
    by (cases t2) (auto simp: replay_task_ok_def)
  from inv ts t1 t2 have one: "r1 = ''Role assigned'' \<or> r2 = ''Role assigned''"
    by (auto simp: replay_inv_def)
  from inv ts t1 t2 have dm: "dm_count ?end = dm_count w + 2"
    by (simp add: replay_inv_def)
  show ?thesis
    unfolding fed using ts t1 t2 one dm by blast
qed

theorem replay_notifies_each_delivery_witness:
  "tasks (run ex_cfg ex_env
      [Feed (Some ex_event), Feed (Some ex_event),
       Advance 0, Advance 0, Gateway_update 42, Advance 1, Advance 0, Advance 1] ex_world)
     = [Finished (Inr (Role_result True ''Role assigned'')),
        Finished (Inr (Role_result True ''Already has role''))]
   \<and> dm_count (run ex_cfg ex_env
      [Feed (Some ex_event), Feed (Some ex_event),
       Advance 0, Advance 0, Gateway_update 42, Advance 1, Advance 0, Advance 1] ex_world) = 2"
proof -
  have e: "tasks (run ex_cfg ex_env
      [Feed (Some ex_event), Feed (Some ex_event),
       Advance 0, Advance 0, Gateway_update 42, Advance 1, Advance 0, Advance 1] ex_world)
     = [Finished (Inr (Role_result True ''Role assigned'')),
        Finished (Inr (Role_result True ''Already has role''))]"
    by (simp add: run_def on_handle_def advance_def resume_def start_assign_def after_assign_def
        gateway_member_update_def get_guild_def get_member_def get_role_def add_roles_def
        send_dm_def emit_def now_def ex_cfg_def ex_world_def ex_env_def ex_event_def)
  have "\<exists>r1 r2.
      tasks (run ex_cfg ex_env
        (Feed (Some ex_event) # Feed (Some ex_event) #
         [Advance 0, Advance 0, Gateway_update 42, Advance 1, Advance 0, Advance 1]) ex_world)
        = [Finished (Inr (Role_result True r1)), Finished (Inr (Role_result True r2))]
      \<and> r1 \<in> {''Already has role'', ''Role assigned''}
      \<and> r2 \<in> {''Already has role'', ''Role assigned''}
      \<and> (r1 = ''Role assigned'' \<or> r2 = ''Role assigned'')
      \<and> dm_count (run ex_cfg ex_env
        (Feed (Some ex_event) # Feed (Some ex_event) #
         [Advance 0, Advance 0, Gateway_update 42, Advance 1, Advance 0, Advance 1]) ex_world)
        = dm_count ex_world + 2"
  proof (rule replay_notifies_each_delivery[where role=7 and d=42])
    show "list_all is_finished (tasks (run ex_cfg ex_env
        (Feed (Some ex_event) # Feed (Some ex_event) #
         [Advance 0, Advance 0, Gateway_update 42, Advance 1, Advance 0, Advance 1]) ex_world))"
      using e by simp
  qed (simp_all add: ex_cfg_def ex_world_def ex_env_def ex_event_def get_role_def)
  then have "dm_count (run ex_cfg ex_env
      [Feed (Some ex_event), Feed (Some ex_event),
       Advance 0, Advance 0, Gateway_update 42, Advance 1, Advance 0, Advance 1] ex_world)
     = dm_count ex_world + 2" by blast
  with e show ?thesis by (simp add: dm_count_def dm_events_def ex_world_def)
qed

end
